theory Spec2Isabelle
  imports Main "HOL-Library.Sublist" "HOL-Library.Word"
begin

section \<open>Python values of the career advisor (src/app.py)\<close>

text \<open>
  A Python \<open>str\<close> is a sequence of Unicode code points, so a string is a list of
  code points here and \<open>str\<close> turns an ASCII literal into one. The few non-ASCII
  characters of the source (the pictographs in widget labels) are written as their
  code points.
\<close>

type_synonym pystr = "nat list"

definition str :: "string \<Rightarrow> pystr" where
  "str cs = map of_char cs"

text \<open>
  \<open>str.isspace\<close> for one code point: the characters that \<open>str.strip()\<close>
  removes when it is called without an argument.
\<close>

definition isspace :: "nat \<Rightarrow> bool" where
  "isspace c \<longleftrightarrow>
     (0x09 \<le> c \<and> c \<le> 0x0D) \<or> (0x1C \<le> c \<and> c \<le> 0x20) \<or> c = 0x85 \<or> c = 0xA0 \<or>
     c = 0x1680 \<or> (0x2000 \<le> c \<and> c \<le> 0x200A) \<or> c = 0x2028 \<or> c = 0x2029 \<or>
     c = 0x202F \<or> c = 0x205F \<or> c = 0x3000"

definition strip :: "pystr \<Rightarrow> pystr" where
  "strip s = rev (dropWhile isspace (rev (dropWhile isspace s)))"

text \<open>\<open>sep.join(xs)\<close> on a list of strings.\<close>

fun join :: "pystr \<Rightarrow> pystr list \<Rightarrow> pystr" where
  "join sep [] = []"
| "join sep [x] = x"
| "join sep (x # y # ys) = x @ sep @ join sep (y # ys)"

text \<open>
  The exceptions that \<open>except Exception\<close> catches. \<open>LibraryError\<close> stands for
  whatever an external library call raises (the generative service, pdfplumber,
  docx2txt, \<open>json.loads\<close>) and carries the text of \<open>str(e)\<close>; the others are
  raised by the interpreter itself.
\<close>

datatype exn =
    LibraryError pystr
  | AttributeError pystr
  | UnboundLocalError pystr
  | TypeError pystr

fun exn_str :: "exn \<Rightarrow> pystr" where
  "exn_str (LibraryError m) = m"
| "exn_str (AttributeError m) = m"
| "exn_str (UnboundLocalError m) = m"
| "exn_str (TypeError m) = m"

section \<open>JSON values\<close>

text \<open>
  What \<open>json.loads\<close> returns: \<open>None\<close>, a bool, an int, a float (kept as the 64 bits
  of the double), a str, a list or a dict. A dict is an association list read with
  \<open>map_of\<close>.
\<close>

datatype pyval =
    PNone
  | PBool bool
  | PInt int
  | PFloat "64 word"
  | PStr pystr
  | PList "pyval list"
  | PDict "(pystr \<times> pyval) list"

text \<open>Truth value testing, as in \<open>if career_advice:\<close>.\<close>

fun truthy :: "pyval \<Rightarrow> bool" where
  "truthy PNone = False"
| "truthy (PBool b) = b"
| "truthy (PInt i) = (i \<noteq> 0)"
| "truthy (PFloat w) = (w \<noteq> 0 \<and> w \<noteq> 0x8000000000000000)"
| "truthy (PStr s) = (s \<noteq> [])"
| "truthy (PList xs) = (xs \<noteq> [])"
| "truthy (PDict kvs) = (kvs \<noteq> [])"

fun type_name :: "pyval \<Rightarrow> pystr" where
  "type_name PNone = str ''NoneType''"
| "type_name (PBool b) = str ''bool''"
| "type_name (PInt i) = str ''int''"
| "type_name (PFloat w) = str ''float''"
| "type_name (PStr s) = str ''str''"
| "type_name (PList xs) = str ''list''"
| "type_name (PDict kvs) = str ''dict''"

text \<open>\<open>data.get(key, default)\<close>: only a dict has the method.\<close>

fun py_get :: "pyval \<Rightarrow> pystr \<Rightarrow> pyval \<Rightarrow> exn + pyval" where
  "py_get (PDict kvs) key dflt = Inr (case map_of kvs key of Some v \<Rightarrow> v | None \<Rightarrow> dflt)"
| "py_get v key dflt =
     Inl (AttributeError ([0x27] @ type_name v @ [0x27] @ str '' object has no attribute '' @
            [0x27] @ str ''get'' @ [0x27]))"

fun is_str :: "pyval \<Rightarrow> bool" where
  "is_str (PStr s) = True"
| "is_str v = False"

text \<open>\<open>isinstance(skills, list) and all(isinstance(s, str) for s in skills)\<close>\<close>

fun is_str_list :: "pyval \<Rightarrow> bool" where
  "is_str_list (PList xs) = list_all is_str xs"
| "is_str_list v = False"

section \<open>The libraries and the generative service\<close>

text \<open>
  Library behaviour that the repository does not contain is a parameter of the model:
  \<open>json.loads\<close> (which raises or returns a value), the character class \<open>\w\<close> of the
  \<open>re\<close> module, and the iteration order of a \<open>set\<close>, given as a rank by which the
  elements are listed (Python leaves the order open; every order of a finite set is
  the order of some rank).
\<close>

record pylib =
  json_loads :: "pystr \<Rightarrow> exn + pyval"
  isword :: "nat \<Rightarrow> bool"
  set_rank :: "pystr \<Rightarrow> nat"

text \<open>
  A prompt is the template of its call site with the values interpolated into it; the
  skills are interpolated as \<open>', '.join(skills)\<close>.
\<close>

datatype prompt =
    SkillsPrompt pystr
  | RoadmapPrompt pystr int pystr pystr "(pystr \<times> int) list"
  | GapPrompt pystr pystr
  | CoursesPrompt pystr

datatype response = Response (text_of: pystr)

text \<open>
  The service answers the \<open>k\<close>-th request of the session, given its prompt, by raising
  or by a response that carries text.
\<close>

type_synonym service = "nat \<Rightarrow> prompt \<Rightarrow> exn + response"

section \<open>The user interface as a log of calls\<close>

text \<open>
  The image bytes that \<open>qrcode.make(data)\<close> saved as PNG are kept symbolic: the
  encoder is an external library.
\<close>

datatype png = QrPng pystr

text \<open>
  The calls that show something are logged with their arguments; calls that only lay the
  page out (page configuration, sidebar, spinner, expander, tabs) are not, and what an
  input widget returns is read from the record of widget values below. Where the source
  hands a value of the service to a widget (\<open>st.markdown(career_advice)\<close>, the
  \<open>f"- {skill}"\<close> lines, the HTML block around \<open>roadmap_svg\<close>), the event
  carries the value itself.
\<close>

datatype ui_event =
    Title pystr
  | Header pystr
  | Subheader pystr
  | Markdown pystr
  | MarkdownValue pyval
  | Bullet pyval
  | Html pyval
  | Write pystr
  | TextArea pystr
  | Warning pystr
  | Info pystr
  | Error pystr
  | Success pystr
  | QrMake pystr
  | Image png pystr nat
  | DownloadButton pystr png pystr pystr

text \<open>The state of a run: the prompts sent to the service and the calls to the user interface, oldest first.\<close>

record world =
  sent :: "prompt list"
  ui :: "ui_event list"

definition emit :: "ui_event \<Rightarrow> world \<Rightarrow> world" where
  "emit ev s = s\<lparr>ui := ui s @ [ev]\<rparr>"

definition generate_content :: "service \<Rightarrow> prompt \<Rightarrow> world \<Rightarrow> (exn + response) \<times> world" where
  "generate_content model p s = (model (length (sent s)) p, s\<lparr>sent := sent s @ [p]\<rparr>)"

section \<open>Resume parsing\<close>

text \<open>
  An uploaded file: its declared media type, and what the two external extractors do
  with it. \<open>pdfplumber.open\<close> either raises or gives the pages; \<open>extract_text\<close>
  of a page raises, or returns \<open>None\<close> or a string. \<open>docx2txt.process\<close> raises or
  returns the text of the document.
\<close>

datatype page = PageText "pystr option" | PageRaises exn

datatype pdf_file = OpenRaises exn | Pages "page list"

record upload =
  ftype :: pystr
  pdf :: pdf_file
  docx :: "exn + pystr"

text \<open>
  The loop over \<open>pdf.pages\<close>, with \<open>text\<close> as the accumulator. An exception leaves
  the loop with the text accumulated so far, which the handler of \<open>parse_resume\<close>
  does not touch.
\<close>

fun pdf_pages :: "page list \<Rightarrow> pystr \<Rightarrow> exn option \<times> pystr" where
  "pdf_pages [] text = (None, text)"
| "pdf_pages (PageRaises e # ps) text = (Some e, text)"
| "pdf_pages (PageText None # ps) text = pdf_pages ps text"
| "pdf_pages (PageText (Some page_text) # ps) text =
     (if page_text \<noteq> [] then pdf_pages ps (text @ page_text @ [0x0A])
      else pdf_pages ps text)"

text \<open>
  \<open>parse_resume\<close> returns the text; the result is a sum so that an exception leaving
  the function would be \<open>Inl\<close>.
\<close>

definition parse_resume :: "upload \<Rightarrow> world \<Rightarrow> (exn + pystr) \<times> world" where
  "parse_resume file s =
     (if ftype file = str ''application/pdf'' then
        (case pdf file of
           OpenRaises e \<Rightarrow>
             (Inr [], emit (Warning (str ''PDF parsing failed: '' @ exn_str e @
                 str ''. Please check the file format or try another PDF.'')) s)
         | Pages ps \<Rightarrow>
             (case pdf_pages ps [] of
                (None, text) \<Rightarrow> (Inr text, s)
              | (Some e, text) \<Rightarrow>
                  (Inr text, emit (Warning (str ''PDF parsing failed: '' @ exn_str e @
                     str ''. Please check the file format or try another PDF.'')) s)))
      else if ftype file \<in> set [str ''application/vnd.openxmlformats-officedocument.wordprocessingml.document'',
                                 str ''application/msword''] then
        (case docx file of
           Inr text \<Rightarrow> (Inr text, s)
         | Inl e \<Rightarrow>
             (Inr [], emit (Warning (str ''DOCX parsing failed: '' @ exn_str e @
                 str ''. Please check the file format or try another DOCX.'')) s))
      else (Inr [], s))"

section \<open>The four calls to the generative service\<close>

text \<open>\<open>re.sub(r"```json|```", "", text)\<close>: every fence is removed, scanning from the left.\<close>

fun sub_fences :: "pystr \<Rightarrow> pystr" where
  "sub_fences [] = []"
| "sub_fences (c # cs) =
     (if prefix (str ''```json'') (c # cs) then sub_fences (drop 6 cs)
      else if prefix (str ''```'') (c # cs) then sub_fences (drop 2 cs)
      else c # sub_fences cs)"

text \<open>The text handed to \<open>json.loads\<close>: stripped, fences removed, stripped again.\<close>

definition clean_reply :: "pystr \<Rightarrow> pystr" where
  "clean_reply t = strip (sub_fences (strip t))"

text \<open>
  Each call site is a \<open>try\<close> block and its handler. The block returns a value, or
  the exception together with the local \<open>response\<close> if it was assigned before the
  exception was raised.
\<close>

definition extract_skills_try ::
  "pylib \<Rightarrow> service \<Rightarrow> prompt \<Rightarrow> world \<Rightarrow> ((exn \<times> response option) + pyval) \<times> world" where
  "extract_skills_try lib model prompt s =
     (case generate_content model prompt s of
        (Inl e, s1) \<Rightarrow> (Inl (e, None), s1)
      | (Inr response, s1) \<Rightarrow>
          (case json_loads lib (clean_reply (text_of response)) of
             Inl e \<Rightarrow> (Inl (e, Some response), s1)
           | Inr skills \<Rightarrow>
               if is_str_list skills then (Inr skills, s1)
               else (Inr (PList []),
                     emit (Warning (str ''AI extracted skills in unexpected format. Falling back to manual input.'')) s1)))"

text \<open>
  The handler of \<open>extract_skills\<close> formats \<open>response.text\<close> without asking whether
  \<open>response\<close> is bound: when it is not, building the message raises
  \<open>UnboundLocalError\<close> (the wording is that of CPython 3.11 and later) and
  \<open>st.warning\<close> is not reached.
\<close>

definition extract_skills :: "pylib \<Rightarrow> service \<Rightarrow> pystr \<Rightarrow> world \<Rightarrow> (exn + pyval) \<times> world" where
  "extract_skills lib model resume_text s =
     (case extract_skills_try lib model (SkillsPrompt resume_text) s of
        (Inr skills, s1) \<Rightarrow> (Inr skills, s1)
      | (Inl (e, Some response), s1) \<Rightarrow>
          (Inr (PList []),
           emit (Warning (str ''Skill extraction failed: '' @ exn_str e @
                   str ''. Ensure the resume has detectable skills. Raw response: '' @ text_of response)) s1)
      | (Inl (e, None), s1) \<Rightarrow>
          (Inl (UnboundLocalError (str ''cannot access local variable '' @ [0x27] @ str ''response'' @ [0x27] @
                   str '' where it is not associated with a value'')), s1))"

text \<open>\<open>response.text if 'response' in locals() else 'No response'\<close>\<close>

fun response_text :: "response option \<Rightarrow> pystr" where
  "response_text (Some response) = text_of response"
| "response_text None = str ''No response''"

definition generate_roadmap_try ::
  "pylib \<Rightarrow> service \<Rightarrow> prompt \<Rightarrow> world \<Rightarrow> ((exn \<times> response option) + pyval \<times> pyval) \<times> world" where
  "generate_roadmap_try lib model prompt s =
     (case generate_content model prompt s of
        (Inl e, s1) \<Rightarrow> (Inl (e, None), s1)
      | (Inr response, s1) \<Rightarrow>
          (case json_loads lib (clean_reply (text_of response)) of
             Inl e \<Rightarrow> (Inl (e, Some response), s1)
           | Inr data \<Rightarrow>
               (case py_get data (str ''career_advice'') (PStr []) of
                  Inl e \<Rightarrow> (Inl (e, Some response), s1)
                | Inr career_advice \<Rightarrow>
                    (case py_get data (str ''roadmap_svg'') (PStr []) of
                       Inl e \<Rightarrow> (Inl (e, Some response), s1)
                     | Inr roadmap_svg \<Rightarrow> (Inr (career_advice, roadmap_svg), s1)))))"

definition generate_roadmap ::
  "pylib \<Rightarrow> service \<Rightarrow> pystr \<Rightarrow> int \<Rightarrow> pystr \<Rightarrow> pystr list \<Rightarrow> (pystr \<times> int) list \<Rightarrow> world
     \<Rightarrow> (exn + pyval \<times> pyval) \<times> world" where
  "generate_roadmap lib model name age domain skills psychometric s =
     (case generate_roadmap_try lib model
             (RoadmapPrompt name age domain (join (str '', '') skills) psychometric) s of
        (Inr r, s1) \<Rightarrow> (Inr r, s1)
      | (Inl (e, ro), s1) \<Rightarrow>
          (Inr (PStr [], PStr []),
           emit (Warning (str ''Roadmap generation failed: '' @ exn_str e @
                   str ''. Gemini response: '' @ response_text ro)) s1))"

text \<open>\<open>str(n)\<close> for the integers that are formatted into messages.\<close>

fun str_of_nat :: "nat \<Rightarrow> pystr" where
  "str_of_nat n = (if n < 10 then [0x30 + n] else str_of_nat (n div 10) @ [0x30 + n mod 10])"

declare str_of_nat.simps [simp del]

definition str_of_int :: "int \<Rightarrow> pystr" where
  "str_of_int i = (if i < 0 then 0x2D # str_of_nat (nat (- i)) else str_of_nat (nat i))"

text \<open>
  The loop of \<open>generate_roadmap_with_retry\<close> over \<open>range(retries + 1)\<close>, which is
  the list \<open>[0..retries]\<close> of integers (empty when \<open>retries\<close> is negative).
\<close>

fun retry_loop ::
  "pylib \<Rightarrow> service \<Rightarrow> pystr \<Rightarrow> int \<Rightarrow> pystr \<Rightarrow> pystr list \<Rightarrow> (pystr \<times> int) list \<Rightarrow> int
     \<Rightarrow> int list \<Rightarrow> world \<Rightarrow> (exn + pyval \<times> pyval) \<times> world" where
  "retry_loop lib model name age domain skills psychometric retries [] s =
     (Inr (PStr [], PStr []), s)"
| "retry_loop lib model name age domain skills psychometric retries (attempt # rest) s =
     (case generate_roadmap lib model name age domain skills psychometric s of
        (Inl e, s1) \<Rightarrow> (Inl e, s1)
      | (Inr (career_advice, roadmap_svg), s1) \<Rightarrow>
          if truthy career_advice then (Inr (career_advice, roadmap_svg), s1)
          else retry_loop lib model name age domain skills psychometric retries rest
                 (emit (Info (str ''Retrying roadmap generation... (Attempt '' @
                          str_of_int (attempt + 1) @ str ''/'' @ str_of_int (retries + 1) @ str '')'')) s1))"

definition generate_roadmap_with_retry ::
  "pylib \<Rightarrow> service \<Rightarrow> pystr \<Rightarrow> int \<Rightarrow> pystr \<Rightarrow> pystr list \<Rightarrow> (pystr \<times> int) list \<Rightarrow> int
     \<Rightarrow> world \<Rightarrow> (exn + pyval \<times> pyval) \<times> world" where
  "generate_roadmap_with_retry lib model name age domain skills psychometric retries s =
     retry_loop lib model name age domain skills psychometric retries [0..retries] s"

definition skill_gap_analysis_try ::
  "pylib \<Rightarrow> service \<Rightarrow> prompt \<Rightarrow> world \<Rightarrow> ((exn \<times> response option) + pyval) \<times> world" where
  "skill_gap_analysis_try lib model prompt s =
     (case generate_content model prompt s of
        (Inl e, s1) \<Rightarrow> (Inl (e, None), s1)
      | (Inr response, s1) \<Rightarrow>
          (case json_loads lib (clean_reply (text_of response)) of
             Inl e \<Rightarrow> (Inl (e, Some response), s1)
           | Inr data \<Rightarrow> (Inr data, s1)))"

definition skill_gap_analysis ::
  "pylib \<Rightarrow> service \<Rightarrow> pystr \<Rightarrow> pystr list \<Rightarrow> world \<Rightarrow> (exn + pyval) \<times> world" where
  "skill_gap_analysis lib model domain skills s =
     (case skill_gap_analysis_try lib model (GapPrompt (join (str '', '') skills) domain) s of
        (Inr r, s1) \<Rightarrow> (Inr r, s1)
      | (Inl (e, ro), s1) \<Rightarrow>
          (Inr (PDict []),
           emit (Warning (str ''Skill gap analysis failed: '' @ exn_str e @
                   str ''. Gemini response: '' @ response_text ro)) s1))"

section \<open>Course recommendation\<close>

text \<open>
  The regular expression of \<open>recommend_courses\<close>, with the backtracking of the
  \<open>re\<close> module: a matcher maps the text at a position to the list of texts that can
  remain after a match, in the order in which the engine tries them (greedy first,
  the left alternative first). The engine takes the first.
\<close>

type_synonym matcher = "pystr \<Rightarrow> pystr list"

definition re_lit :: "pystr \<Rightarrow> matcher" where
  "re_lit l t = (if prefix l t then [drop (length l) t] else [])"

definition re_seq :: "matcher \<Rightarrow> matcher \<Rightarrow> matcher" where
  "re_seq m1 m2 t = concat (map m2 (m1 t))"

definition re_alt :: "matcher \<Rightarrow> matcher \<Rightarrow> matcher" where
  "re_alt m1 m2 t = m1 t @ m2 t"

definition re_opt :: "matcher \<Rightarrow> matcher" where
  "re_opt m t = m t @ [t]"

text \<open>\<open>[...]+\<close> for a character class: one or more, the longest first.\<close>

fun re_plus :: "(nat \<Rightarrow> bool) \<Rightarrow> matcher" where
  "re_plus p [] = []"
| "re_plus p (c # cs) = (if p c then re_plus p cs @ [cs] else [])"

text \<open>
  \<^verbatim>\<open>https?://(?:www\.)?(?:youtube\.com|youtu\.be)/(?:watch\?v=|playlist\?list=)[\w-]+\<close>
\<close>

definition youtube_re :: "(nat \<Rightarrow> bool) \<Rightarrow> matcher" where
  "youtube_re w =
     re_seq (re_lit (str ''http''))
    (re_seq (re_opt (re_lit (str ''s'')))
    (re_seq (re_lit (str ''://''))
    (re_seq (re_opt (re_lit (str ''www.'')))
    (re_seq (re_alt (re_lit (str ''youtube.com'')) (re_lit (str ''youtu.be'')))
    (re_seq (re_lit (str ''/''))
    (re_seq (re_alt (re_lit (str ''watch?v='')) (re_lit (str ''playlist?list='')))
            (re_plus (\<lambda>c. w c \<or> c = 0x2D))))))))"

text \<open>
  \<open>re.findall\<close> with this pattern, whose one group is the whole match: at each
  position the first match is taken and the scan goes on behind it; without a match it
  goes on one character further. An empty match would be listed and the scan moved by
  one character.
\<close>

function findall :: "(nat \<Rightarrow> bool) \<Rightarrow> pystr \<Rightarrow> pystr list" where
  "findall w t =
     (if t = [] then []
      else case youtube_re w t of
             [] \<Rightarrow> findall w (tl t)
           | r # rs \<Rightarrow>
               if length r < length t then take (length t - length r) t # findall w r
               else [] # findall w (tl t))"
  by pat_completeness auto
termination
  by (relation "measure (\<lambda>(w, t). length t)") auto

declare findall.simps [simp del]

text \<open>\<open>sub in t\<close> for strings.\<close>

fun contains :: "pystr \<Rightarrow> pystr \<Rightarrow> bool" where
  "contains sub [] = (sub = [])"
| "contains sub (c # cs) = (prefix sub (c # cs) \<or> contains sub cs)"

text \<open>\<open>list(set(xs))\<close>: every element once, in the iteration order of the set.\<close>

definition list_of_set :: "pylib \<Rightarrow> pystr list \<Rightarrow> pystr list" where
  "list_of_set lib xs = sort_key (set_rank lib) (remdups xs)"

definition recommend_courses_try ::
  "pylib \<Rightarrow> service \<Rightarrow> prompt \<Rightarrow> world \<Rightarrow> ((exn \<times> response option) + pystr list) \<times> world" where
  "recommend_courses_try lib model prompt s =
     (case generate_content model prompt s of
        (Inl e, s1) \<Rightarrow> (Inl (e, None), s1)
      | (Inr response, s1) \<Rightarrow>
          (let urls = findall (isword lib) (text_of response)
           in (Inr (list_of_set lib
                     [u \<leftarrow> urls. contains (str ''youtube.com'') u \<or> contains (str ''youtu.be'') u]), s1)))"

definition recommend_courses ::
  "pylib \<Rightarrow> service \<Rightarrow> pystr \<Rightarrow> world \<Rightarrow> (exn + pystr list) \<times> world" where
  "recommend_courses lib model domain s =
     (case recommend_courses_try lib model (CoursesPrompt domain) s of
        (Inr r, s1) \<Rightarrow> (Inr r, s1)
      | (Inl (e, ro), s1) \<Rightarrow>
          (Inr [],
           emit (Warning (str ''Course recommendation failed: '' @ exn_str e @
                   str ''. Gemini response: '' @ response_text ro)) s1))"

text \<open>The loop \<open>for idx, url in enumerate(video_links, 1)\<close>.\<close>

fun course_lines :: "nat \<Rightarrow> pystr list \<Rightarrow> world \<Rightarrow> world" where
  "course_lines idx [] s = s"
| "course_lines idx (url # rest) s =
     course_lines (idx + 1) rest
       (emit (Markdown (str ''- [Course '' @ str_of_nat idx @ str '']('' @ url @ str '')'')) s)"

text \<open>
  \<open>QrMake\<close> is the call \<open>qrcode.make(merged)\<close>; the bytes saved from it are shown by
  \<open>st.image\<close> and offered by \<open>st.download_button\<close>.
\<close>

definition display_courses_with_qr :: "pystr list \<Rightarrow> world \<Rightarrow> world" where
  "display_courses_with_qr video_links s =
     (if video_links = [] then emit (Info (str ''No courses recommended at this time.'')) s
      else
        (let s1 = emit (Subheader ([0x1F4FA] @ str '' Recommended Courses'')) s;
             s2 = course_lines 1 video_links s1;
             merged = join [0x0A] video_links
         in if merged \<noteq> [] then
              emit (DownloadButton ([0x2B07, 0xFE0F] @ str '' Download QR Code'') (QrPng merged)
                      (str ''courses_qr.png'') (str ''image/png''))
             (emit (Image (QrPng merged) ([0x1F4F1] @ str '' Scan to access courses'') 150)
             (emit (QrMake merged) s2))
            else s2))"

section \<open>Manual entry of skills\<close>

text \<open>\<open>s.split(sep)\<close> for a separator of one character.\<close>

fun split_on :: "nat \<Rightarrow> pystr \<Rightarrow> pystr list" where
  "split_on sep [] = [[]]"
| "split_on sep (c # cs) =
     (if c = sep then [] # split_on sep cs
      else case split_on sep cs of
             t # ts \<Rightarrow> (c # t) # ts
           | [] \<Rightarrow> [[c]])"

text \<open>\<open>[s.strip() for s in manual_skills_input.split(',') if s.strip()]\<close>\<close>

definition manual_skills :: "pystr \<Rightarrow> pystr list" where
  "manual_skills manual_skills_input =
     [strip s. s \<leftarrow> split_on 0x2C manual_skills_input, strip s \<noteq> []]"

section \<open>The page\<close>

text \<open>
  One run of \<open>main\<close> reads the current values of the widgets: the secret, the
  sidebar inputs, the uploaded file, the text field for manual skills (shown only when
  extraction gave nothing) and whether each of the two buttons was pressed.
\<close>

record widgets =
  secret_api_key :: "pystr option"
  name_input :: pystr
  age_input :: int
  domain_select :: pystr
  other_domain_input :: pystr
  slider :: "pystr \<Rightarrow> int"
  uploaded_file :: "upload option"
  manual_skills_input :: pystr
  generate_clicked :: bool
  explore_clicked :: bool

text \<open>How a run ends: at its last line, by \<open>st.stop()\<close>, or by an exception that nothing catches.\<close>

datatype outcome = Finished | Stopped | Raised exn

text \<open>\<open>load_api_key\<close>: \<open>None\<close> is the run halted by \<open>st.stop()\<close>.\<close>

definition load_api_key :: "widgets \<Rightarrow> world \<Rightarrow> pystr option \<times> world" where
  "load_api_key w s =
     (case secret_api_key w of
        Some api_key \<Rightarrow>
          if api_key \<noteq> [] then (Some api_key, s)
          else (None, emit (Error ([0x274C] @ str '' GEMINI_API_KEY missing. Please set it in Streamlit Cloud Secrets (Advanced Settings).'')) s)
      | None \<Rightarrow>
          (None, emit (Error ([0x274C] @ str '' GEMINI_API_KEY missing. Please set it in Streamlit Cloud Secrets (Advanced Settings).'')) s))"

text \<open>
  The strings that \<open>', '.join(skills)\<close> joins: the items of a list when all are
  strings, the characters of a string, the keys of a dict; a \<open>TypeError\<close> otherwise.
\<close>

fun join_items :: "nat \<Rightarrow> pyval list \<Rightarrow> exn + pystr list" where
  "join_items i [] = Inr []"
| "join_items i (PStr x # xs) =
     (case join_items (i + 1) xs of Inl e \<Rightarrow> Inl e | Inr items \<Rightarrow> Inr (x # items))"
| "join_items i (v # xs) =
     Inl (TypeError (str ''sequence item '' @ str_of_nat i @ str '': expected str instance, '' @
            type_name v @ str '' found''))"

fun str_items :: "pyval \<Rightarrow> exn + pystr list" where
  "str_items (PList xs) = join_items 0 xs"
| "str_items (PStr x) = Inr (map (\<lambda>c. [c]) x)"
| "str_items (PDict kvs) = Inr (map fst kvs)"
| "str_items v = Inl (TypeError (str ''can only join an iterable''))"

text \<open>\<open>for skill in value\<close>: the values a loop over a value of the service runs through.\<close>

fun py_iter :: "pyval \<Rightarrow> exn + pyval list" where
  "py_iter (PList xs) = Inr xs"
| "py_iter (PStr x) = Inr (map (\<lambda>c. PStr [c]) x)"
| "py_iter (PDict kvs) = Inr (map (\<lambda>kv. PStr (fst kv)) kvs)"
| "py_iter v =
     Inl (TypeError ([0x27] @ type_name v @ [0x27] @ str '' object is not iterable''))"

text \<open>
  Lines 210 to 231: the skills of this run. Without a file, or with a file that gave no
  text, the list stays empty; otherwise \<open>extract_skills\<close> is called, and when it
  returns nothing the text field for manual entry is read.
\<close>

definition resolve_skills :: "pylib \<Rightarrow> service \<Rightarrow> widgets \<Rightarrow> world \<Rightarrow> (exn + pyval) \<times> world" where
  "resolve_skills lib model w s =
     (case uploaded_file w of
        None \<Rightarrow> (Inr (PList []), s)
      | Some file \<Rightarrow>
          (case parse_resume file s of
             (Inl e, s1) \<Rightarrow> (Inl e, s1)
           | (Inr resume_text, s1) \<Rightarrow>
               if resume_text \<noteq> [] then
                 (case extract_skills lib model resume_text
                         (emit (TextArea resume_text)
                           (emit (Success (str ''Resume parsed successfully!'')) s1)) of
                    (Inl e, s2) \<Rightarrow> (Inl e, s2)
                  | (Inr skills, s2) \<Rightarrow>
                      if \<not> truthy skills then
                        (Inr (PList (map PStr (manual_skills (manual_skills_input w)))),
                         emit (Warning (str ''AI could not reliably detect skills from your resume. Please enter your key skills manually below.'')) s2)
                      else
                        (case str_items skills of
                           Inl e \<Rightarrow> (Inl e, s2)
                         | Inr items \<Rightarrow>
                             (Inr skills,
                              emit (Info ([0x2705] @ str '' Extracted Skills: '' @ join (str '', '') items)) s2)))
               else
                 (Inr (PList []),
                  emit (Error (str ''Could not parse the uploaded file. Please ensure it'' @ [0x27] @
                          str ''s a valid PDF or DOCX.'')) s1)))"

text \<open>One of the two lists of the skill-gap tab (lines 273 to 285).\<close>

fun bullets :: "pyval list \<Rightarrow> world \<Rightarrow> world" where
  "bullets [] s = s"
| "bullets (skill # rest) s = bullets rest (emit (Bullet skill) s)"

definition gap_list :: "pyval \<Rightarrow> pystr \<Rightarrow> pystr \<Rightarrow> world \<Rightarrow> exn option \<times> world" where
  "gap_list gap_analysis_result key none_message s =
     (case py_get gap_analysis_result key PNone of
        Inl e \<Rightarrow> (Some e, s)
      | Inr v \<Rightarrow>
          if truthy v then
            (case py_iter v of
               Inl e \<Rightarrow> (Some e, s)
             | Inr skills \<Rightarrow> (None, bullets skills s))
          else (None, emit (Info none_message) s))"

text \<open>The four tabs (lines 247 to 294).\<close>

definition career_tab :: "pyval \<Rightarrow> pyval \<Rightarrow> world \<Rightarrow> world" where
  "career_tab career_advice roadmap_svg s =
     (let s1 = (if truthy career_advice then
                  emit (MarkdownValue career_advice)
                    (emit (Markdown (str ''### Your Personalized Career Advice'')) s)
                else emit (Info (str ''Career advice not available. Please try again or refine your input.'')) s)
      in if truthy roadmap_svg then
           emit (Html roadmap_svg) (emit (Subheader ([0x1F4C5] @ str '' Visual Learning Roadmap'')) s1)
         else emit (Info (str ''Visual roadmap not available. Gemini might not have generated it or there was an error.'')) s1)"

definition gap_tab :: "pyval \<Rightarrow> world \<Rightarrow> exn option \<times> world" where
  "gap_tab gap_analysis_result s =
     (let s1 = emit (Subheader ([0x1F6E0] @ str '' Skill Gap Analysis'')) s
      in if truthy gap_analysis_result then
           (case gap_list gap_analysis_result (str ''missing_skills'')
                   (str ''No specific missing skills identified at this time.'')
                   (emit (Markdown (str ''#### Missing Key Skills'')) s1) of
              (Some e, s2) \<Rightarrow> (Some e, s2)
            | (None, s2) \<Rightarrow>
                gap_list gap_analysis_result (str ''priority_skills'')
                  (str ''No specific priority skills identified at this time.'')
                  (emit (Markdown (str ''#### Priority Skills for Immediate Focus'')) s2))
         else (None, emit (Info (str ''Unable to perform a comprehensive skill gap analysis. Please ensure your domain and skills are clear.'')) s1))"

definition internship_tab :: "widgets \<Rightarrow> world \<Rightarrow> world" where
  "internship_tab w s =
     (let s1 = emit (Write (str ''This section would integrate with job boards to find relevant opportunities based on your profile and roadmap.''))
                 (emit (Subheader ([0x1F680] @ str '' Internship & Job Opportunities (Demo)'')) s)
      in if explore_clicked w then
           emit (Info (str ''In a full application, this would link to real job listings.''))
             (emit (Success ([0x1F389] @ str '' Searching for opportunities... (This is a demo action)'')) s1)
         else s1)"

text \<open>
  Lines 236 to 299: the gate of the plan and what runs behind it. The skills go to the
  three calls as the strings that the prompts join; \<open>retries\<close> has its default 2.
\<close>

definition plan ::
  "pylib \<Rightarrow> service \<Rightarrow> widgets \<Rightarrow> pystr \<Rightarrow> int \<Rightarrow> pystr \<Rightarrow> pyval \<Rightarrow> (pystr \<times> int) list \<Rightarrow> world
     \<Rightarrow> outcome \<times> world" where
  "plan lib model w name age domain skills psychometric s =
     (if generate_clicked w \<and> name \<noteq> [] \<and> domain \<noteq> [] \<and> truthy skills then
        (if \<not> truthy skills then
           (Stopped, emit (Warning (str ''Please provide your skills either by uploading a resume or entering them manually.'')) s)
         else
           (case str_items skills of
              Inl e \<Rightarrow> (Raised e, s)
            | Inr items \<Rightarrow>
                (case generate_roadmap_with_retry lib model name age domain items psychometric 2 s of
                   (Inl e, s1) \<Rightarrow> (Raised e, s1)
                 | (Inr (career_advice, roadmap_svg), s1) \<Rightarrow>
                     (case skill_gap_analysis lib model domain items s1 of
                        (Inl e, s2) \<Rightarrow> (Raised e, s2)
                      | (Inr gap_analysis_result, s2) \<Rightarrow>
                          (case recommend_courses lib model domain s2 of
                             (Inl e, s3) \<Rightarrow> (Raised e, s3)
                           | (Inr video_links, s3) \<Rightarrow>
                               (case gap_tab gap_analysis_result
                                       (display_courses_with_qr video_links
                                         (career_tab career_advice roadmap_svg s3)) of
                                  (Some e, s4) \<Rightarrow> (Raised e, s4)
                                | (None, s4) \<Rightarrow> (Finished, internship_tab w s4)))))))
      else if uploaded_file w \<noteq> None \<and> (name = [] \<or> domain = []) then
        (Finished, emit (Warning (str ''Please fill in your Name, Age, and Domain to generate the career plan.'')) s)
      else if uploaded_file w = None then
        (Finished, emit (Info (str ''Upload your resume and fill out your information to get started!'')) s)
      else (Finished, s))"

text \<open>Lines 186 to 207: what the page shows before the upload is looked at.\<close>

definition before_upload :: "world \<Rightarrow> world" where
  "before_upload s =
     emit (Header ([0x1F4C4] @ str '' Upload Your Resume''))
    (emit (Write (str ''Rate yourself from 1 (low) to 10 (high)''))
    (emit (Subheader ([0x1F9E0] @ str '' Psychometric Profile''))
    (emit (Markdown (str ''---''))
    (emit (Header (str ''User Information'')) s))))"

definition open_page :: "world \<Rightarrow> world" where
  "open_page s = emit (Title ([0x1F60E] @ str '' CaroAI - Personalized Career & Skills Advisor'')) s"

definition main :: "pylib \<Rightarrow> service \<Rightarrow> widgets \<Rightarrow> world \<Rightarrow> outcome \<times> world" where
  "main lib model w s =
     (case load_api_key w (open_page s) of
        (None, s1) \<Rightarrow> (Stopped, s1)
      | (Some api_key, s1) \<Rightarrow>
          (let name = name_input w;
               age = age_input w;
               domain = (if domain_select w = str ''Other'' then other_domain_input w
                         else domain_select w);
               psychometric =
                 [(str ''analytical'', slider w (str ''Analytical Skills'')),
                  (str ''creativity'', slider w (str ''Creativity'')),
                  (str ''communication'', slider w (str ''Communication'')),
                  (str ''problem_solving'', slider w (str ''Problem Solving'')),
                  (str ''adaptability'', slider w (str ''Adaptability'')),
                  (str ''leadership'', slider w (str ''Leadership''))]
           in case resolve_skills lib model w (before_upload s1) of
                (Inl e, s2) \<Rightarrow> (Raised e, s2)
              | (Inr skills, s2) \<Rightarrow>
                  plan lib model w name age domain skills psychometric
                    (emit (Markdown (str ''---'')) s2)))"

section \<open>Notions used to state the properties\<close>

text \<open>
  The media types that \<open>parse_resume\<close> recognises, and the warnings it gives.
\<close>

definition pdf_type :: pystr where
  "pdf_type = str ''application/pdf''"

definition word_types :: "pystr list" where
  "word_types = [str ''application/vnd.openxmlformats-officedocument.wordprocessingml.document'',
                 str ''application/msword'']"

definition pdf_warning :: "exn \<Rightarrow> ui_event" where
  "pdf_warning e = Warning (str ''PDF parsing failed: '' @ exn_str e @
                     str ''. Please check the file format or try another PDF.'')"

definition docx_warning :: "exn \<Rightarrow> ui_event" where
  "docx_warning e = Warning (str ''DOCX parsing failed: '' @ exn_str e @
                      str ''. Please check the file format or try another DOCX.'')"

text \<open>
  The text of a run of pages: each non-empty page text followed by a newline. A page
  that raises has no text.
\<close>

definition pages_text :: "page list \<Rightarrow> pystr" where
  "pages_text ps =
     concat (map (\<lambda>p. case p of PageText (Some t) \<Rightarrow> (if t \<noteq> [] then t @ [0x0A] else [])
                              | _ \<Rightarrow> []) ps)"

definition is_page_text :: "page \<Rightarrow> bool" where
  "is_page_text p = (case p of PageText t \<Rightarrow> True | PageRaises e \<Rightarrow> False)"

text \<open>
  The warning of \<open>extract_skills\<close> for a parsed value of the wrong shape, and
  \<open>d.get(key, "")\<close> on the association list of a dict.
\<close>

definition format_warning :: ui_event where
  "format_warning = Warning (str ''AI extracted skills in unexpected format. Falling back to manual input.'')"

definition value_or_empty :: "(pystr \<times> pyval) list \<Rightarrow> pystr \<Rightarrow> pyval" where
  "value_or_empty kvs key = (case map_of kvs key of Some v \<Rightarrow> v | None \<Rightarrow> PStr [])"

fun is_dict :: "pyval \<Rightarrow> bool" where
  "is_dict (PDict kvs) = True"
| "is_dict v = False"

text \<open>
  What \<open>generate_roadmap\<close> returns when its request is the \<open>k\<close>-th of the
  session: the value of its \<open>try\<close> block, or the pair of empty strings of its handler.
\<close>

definition roadmap_result :: "pylib \<Rightarrow> service \<Rightarrow> prompt \<Rightarrow> nat \<Rightarrow> pyval \<times> pyval" where
  "roadmap_result lib model p k =
     (case generate_roadmap_try lib model p \<lparr>sent = replicate k p, ui = []\<rparr> of
        (Inr r, s1) \<Rightarrow> r
      | (Inl x, s1) \<Rightarrow> (PStr [], PStr []))"





text \<open>
  A YouTube-style URL, said without the matcher: one of the sixteen beginnings that the
  pattern allows (scheme, optional \<open>www.\<close>, host, \<open>/\<close>, \<open>watch?v=\<close> or
  \<open>playlist?list=\<close>), followed by a non-empty run of word characters and hyphens.
\<close>

definition yt_prefixes :: "pystr list" where
  "yt_prefixes =
     [str ''http'' @ sch @ str ''://'' @ www @ host @ str ''/'' @ path.
        sch \<leftarrow> [[], str ''s''], www \<leftarrow> [[], str ''www.''],
        host \<leftarrow> [str ''youtube.com'', str ''youtu.be''],
        path \<leftarrow> [str ''watch?v='', str ''playlist?list='']]"

definition youtube_url :: "(nat \<Rightarrow> bool) \<Rightarrow> pystr \<Rightarrow> bool" where
  "youtube_url w u =
     list_ex (\<lambda>p. prefix p u \<and> drop (length p) u \<noteq> [] \<and>
                  list_all (\<lambda>c. w c \<or> c = 0x2D) (drop (length p) u)) yt_prefixes"

text \<open>
  The skills that a run of \<open>main\<close> has when it reaches the gate of the plan (the
  credential being present).
\<close>

definition run_skills :: "pylib \<Rightarrow> service \<Rightarrow> widgets \<Rightarrow> world \<Rightarrow> exn + pyval" where
  "run_skills lib model w s = fst (resolve_skills lib model w (before_upload (open_page s)))"

section \<open>Concrete inputs\<close>

text \<open>
  A \<open>json.loads\<close> that knows a few texts and raises on every other one, the ASCII
  part of \<open>\w\<close>, and the length as the rank of a string in a set.
\<close>

definition dq :: "string \<Rightarrow> pystr" where
  "dq cs = [0x22] @ str cs @ [0x22]"

definition advice_text :: pystr where
  "advice_text = str ''{'' @ dq ''career_advice'' @ str '': '' @ dq ''Learn SQL'' @ str ''}''"

definition skills_text :: pystr where
  "skills_text = str ''['' @ dq ''Python'' @ str '', '' @ dq ''SQL'' @ str '']''"

definition demo_loads :: "pystr \<Rightarrow> exn + pyval" where
  "demo_loads t =
     (if t = str ''[1]'' then Inr (PList [PInt 1])
      else if t = str ''[]'' then Inr (PList [])
      else if t = skills_text then Inr (PList [PStr (str ''Python''), PStr (str ''SQL'')])
      else if t = advice_text then Inr (PDict [(str ''career_advice'', PStr (str ''Learn SQL''))])
      else Inl (LibraryError (str ''Expecting value'')))"

definition ascii_word :: "nat \<Rightarrow> bool" where
  "ascii_word c \<longleftrightarrow> (0x30 \<le> c \<and> c \<le> 0x39) \<or> (0x41 \<le> c \<and> c \<le> 0x5A) \<or> (0x61 \<le> c \<and> c \<le> 0x7A) \<or> c = 0x5F"

definition demo_lib :: pylib where
  "demo_lib = \<lparr>json_loads = demo_loads, isword = ascii_word, set_rank = length\<rparr>"

definition world0 :: world where
  "world0 = \<lparr>sent = [], ui = []\<rparr>"

text \<open>
  Replies of the service: an object in a Markdown fence, a text that is no JSON, a bare
  short link, and a text that holds the same link twice. \<open>flaky_model\<close> answers its
  first request with the text that is no JSON; \<open>down_model\<close> raises on every request.
\<close>

definition fenced_advice :: pystr where
  "fenced_advice = str ''```json'' @ [0x0A] @ advice_text @ [0x0A] @ str ''```''"

definition bare_link :: pystr where
  "bare_link = str ''https://youtu.be/dQw4w9WgXcQ''"

definition watch_link :: pystr where
  "watch_link = str ''https://youtu.be/watch?v=a1''"

definition twice_text :: pystr where
  "twice_text = str ''https://youtu.be/watch?v=a1 and https://youtu.be/watch?v=a1''"

definition flaky_model :: service where
  "flaky_model k p = (if k = 0 then Inr (Response (str ''oops'')) else Inr (Response fenced_advice))"

definition oops_model :: service where
  "oops_model k p = Inr (Response (str ''oops''))"

definition down_model :: service where
  "down_model k p = Inl (LibraryError (str ''503 Service Unavailable''))"

definition demo_prompt :: prompt where
  "demo_prompt = RoadmapPrompt (str ''Asha'') 25 (str ''Data Science'')
                   (join (str '', '') [str ''Python'', str ''SQL'']) []"

text \<open>
  A session: a Word document that holds text, name and domain filled in, nothing in the
  field for manual skills, and the button of the plan pressed.
\<close>

definition demo_upload :: upload where
  "demo_upload = \<lparr>ftype = str ''application/msword'', pdf = Pages [],
                   docx = Inr (str ''Python developer'')\<rparr>"

definition demo_widgets :: widgets where
  "demo_widgets = \<lparr>secret_api_key = Some (str ''key''), name_input = str ''Asha'', age_input = 25,
      domain_select = str ''Data Science'', other_domain_input = [], slider = (\<lambda>label. 5),
      uploaded_file = Some demo_upload, manual_skills_input = [],
      generate_clicked = True, explore_clicked = False\<rparr>"

section \<open>Basic facts\<close>

lemma str_inj: "str a = str b \<longleftrightarrow> a = b"
  unfolding str_def by (simp add: inj_map_eq_map inj_on_def)

lemma str_nonempty: "str cs = [] \<longleftrightarrow> cs = []"
  by (simp add: str_def)

lemma str_append: "str (a @ b) = str a @ str b"
  by (simp add: str_def)


lemma sent_emit: "sent (emit ev s) = sent s"
  by (simp add: emit_def)


lemma is_str_iff: "is_str v \<longleftrightarrow> (\<exists>u. v = PStr u)"
  by (cases v) auto

lemma is_dict_iff: "is_dict v \<longleftrightarrow> (\<exists>kvs. v = PDict kvs)"
  by (cases v) auto

lemma is_str_list_iff: "is_str_list v \<longleftrightarrow> (\<exists>xs. v = PList xs \<and> list_all is_str xs)"
  by (cases v) auto

lemma clean_fenced_advice: "clean_reply fenced_advice = advice_text"
  by (simp add: fenced_advice_def clean_reply_def strip_def str_def isspace_def advice_text_def dq_def)

lemma clean_oops: "clean_reply (str ''oops'') = str ''oops''"
  by (simp add: clean_reply_def strip_def str_def isspace_def)

lemma loads_advice:
  "json_loads demo_lib advice_text = Inr (PDict [(str ''career_advice'', PStr (str ''Learn SQL''))])"
  by (simp add: demo_lib_def demo_loads_def advice_text_def skills_text_def dq_def str_def)

lemma loads_oops: "json_loads demo_lib (str ''oops'') = Inl (LibraryError (str ''Expecting value''))"
  by (simp add: demo_lib_def demo_loads_def advice_text_def skills_text_def dq_def str_def)

section \<open>Resume parsing\<close>

lemma pdf_not_word: "pdf_type \<notin> set word_types"
  by (simp add: pdf_type_def word_types_def str_inj)

lemma pdf_pages_raise:
  "list_all is_page_text pre \<Longrightarrow>
   pdf_pages (pre @ PageRaises e # post) acc = (Some e, acc @ pages_text pre)"
proof (induction pre arbitrary: acc)
  case Nil
  then show ?case by (simp add: pages_text_def)
next
  case (Cons p pre)
  then show ?case
    by (cases p) (auto simp: pages_text_def is_page_text_def split: option.splits)
qed

text \<open>
  Claim C7. \<open>parse_resume\<close> always returns a text and never raises. For a file whose
  declared media type is neither the PDF type nor one of the two Word types the text is
  empty and nothing is shown. When extraction raises, the exception is caught and a
  warning is shown: if opening the PDF raises, or the Word extraction raises, the text
  is empty; if a page of the PDF raises, the text is what the pages before it gave.
\<close>

theorem parse_resume_never_raises:
  "(\<exists>t s'. parse_resume file s = (Inr t, s')) \<and>
   (ftype file \<noteq> pdf_type \<and> ftype file \<notin> set word_types \<longrightarrow>
      parse_resume file s = (Inr [], s)) \<and>
   (ftype file = pdf_type \<and> pdf file = OpenRaises e \<longrightarrow>
      parse_resume file s = (Inr [], emit (pdf_warning e) s)) \<and>
   (ftype file = pdf_type \<and> pdf file = Pages (pre @ PageRaises e # post) \<and>
    list_all is_page_text pre \<longrightarrow>
      parse_resume file s = (Inr (pages_text pre), emit (pdf_warning e) s)) \<and>
   (ftype file \<in> set word_types \<and> docx file = Inl e \<longrightarrow>
      parse_resume file s = (Inr [], emit (docx_warning e) s))"
proof -
  have total: "\<exists>t s'. parse_resume file s = (Inr t, s')"
    unfolding parse_resume_def
    by (auto split: pdf_file.splits prod.splits option.splits sum.splits)
  have other: "ftype file \<noteq> pdf_type \<and> ftype file \<notin> set word_types \<longrightarrow>
      parse_resume file s = (Inr [], s)"
    unfolding parse_resume_def pdf_type_def word_types_def by simp
  have opn: "ftype file = pdf_type \<and> pdf file = OpenRaises e \<longrightarrow>
      parse_resume file s = (Inr [], emit (pdf_warning e) s)"
    unfolding parse_resume_def pdf_type_def pdf_warning_def by simp
  have mid: "ftype file = pdf_type \<and> pdf file = Pages (pre @ PageRaises e # post) \<and>
      list_all is_page_text pre \<longrightarrow>
      parse_resume file s = (Inr (pages_text pre), emit (pdf_warning e) s)"
    unfolding parse_resume_def pdf_type_def pdf_warning_def
    by (simp add: pdf_pages_raise)
  have dx: "ftype file \<in> set word_types \<and> docx file = Inl e \<longrightarrow>
      parse_resume file s = (Inr [], emit (docx_warning e) s)"
    using pdf_not_word
    unfolding parse_resume_def docx_warning_def
    by (auto simp: pdf_type_def word_types_def)
  from total other opn mid dx show ?thesis by blast
qed

text \<open>
  A PDF whose third page raises gives the text of the first page and the warning; a
  plain-text file gives the empty text.
\<close>

theorem parse_resume_never_raises_witness:
  "parse_resume \<lparr>ftype = str ''application/pdf'',
                  pdf = Pages [PageText (Some (str ''ab'')), PageText None,
                               PageRaises (LibraryError (str ''x'')), PageText (Some (str ''cd''))],
                  docx = Inl (LibraryError (str ''y''))\<rparr> \<lparr>sent = [], ui = []\<rparr>
   = (Inr (str ''ab'' @ [0x0A]),
      \<lparr>sent = [],
       ui = [Warning (str ''PDF parsing failed: x. Please check the file format or try another PDF.'')]\<rparr>)
   \<and> parse_resume \<lparr>ftype = str ''text/plain'', pdf = Pages [PageText (Some (str ''ab''))],
                    docx = Inr (str ''cd'')\<rparr> \<lparr>sent = [], ui = []\<rparr>
     = (Inr [], \<lparr>sent = [], ui = []\<rparr>)"
  using parse_resume_never_raises [of "\<lparr>ftype = str ''application/pdf'',
                  pdf = Pages [PageText (Some (str ''ab'')), PageText None,
                               PageRaises (LibraryError (str ''x'')), PageText (Some (str ''cd''))],
                  docx = Inl (LibraryError (str ''y''))\<rparr>" "\<lparr>sent = [], ui = []\<rparr>"
                  "LibraryError (str ''x'')"
                  "[PageText (Some (str ''ab'')), PageText None]" "[PageText (Some (str ''cd''))]"]
        parse_resume_never_raises [of "\<lparr>ftype = str ''text/plain'',
                  pdf = Pages [PageText (Some (str ''ab''))], docx = Inr (str ''cd'')\<rparr>"
                  "\<lparr>sent = [], ui = []\<rparr>"]
  by (simp add: pdf_type_def word_types_def pdf_warning_def pages_text_def is_page_text_def
        emit_def str_def)

section \<open>Skill extraction\<close>

text \<open>
  Claim C3. For every textual reply of the service, \<open>extract_skills\<close> returns a list
  (possibly empty) whose every element is a string; and if the cleaned reply parses as
  JSON to a value that is not a list of strings, the result is the warning about the
  format and the empty list, never that value.
\<close>

theorem extract_skills_shape:
  "model (length (sent s)) (SkillsPrompt resume_text) = Inr (Response t) \<Longrightarrow>
   (\<exists>xs. fst (extract_skills lib model resume_text s) = Inr (PList xs) \<and>
         (\<forall>x \<in> set xs. \<exists>u. x = PStr u)) \<and>
   (\<forall>v. json_loads lib (clean_reply t) = Inr v \<and> \<not> is_str_list v \<longrightarrow>
        extract_skills lib model resume_text s =
          (Inr (PList []), emit format_warning (s\<lparr>sent := sent s @ [SkillsPrompt resume_text]\<rparr>)))"
proof -
  assume m: "model (length (sent s)) (SkillsPrompt resume_text) = Inr (Response t)"
  have shape: "\<exists>xs. fst (extract_skills lib model resume_text s) = Inr (PList xs) \<and>
         (\<forall>x \<in> set xs. \<exists>u. x = PStr u)"
  proof (cases "json_loads lib (clean_reply t)")
    case (Inl e)
    with m show ?thesis
      unfolding extract_skills_def extract_skills_try_def generate_content_def by simp
  next
    case (Inr v)
    show ?thesis
    proof (cases "is_str_list v")
      case True
      then obtain xs where "v = PList xs" "list_all is_str xs"
        by (auto simp: is_str_list_iff)
      with m Inr True show ?thesis
        unfolding extract_skills_def extract_skills_try_def generate_content_def
        by (simp add: list_all_iff is_str_iff)
    next
      case False
      with m Inr show ?thesis
        unfolding extract_skills_def extract_skills_try_def generate_content_def by simp
    qed
  qed
  have mis: "\<forall>v. json_loads lib (clean_reply t) = Inr v \<and> \<not> is_str_list v \<longrightarrow>
        extract_skills lib model resume_text s =
          (Inr (PList []), emit format_warning (s\<lparr>sent := sent s @ [SkillsPrompt resume_text]\<rparr>))"
    using m
    unfolding extract_skills_def extract_skills_try_def generate_content_def format_warning_def
    by simp
  from shape mis show ?thesis by blast
qed

text \<open>
  The reply \<^verbatim>\<open>```json[1]```\<close> parses to a list of one number: warning and empty list.
\<close>

theorem extract_skills_shape_witness:
  "extract_skills demo_lib (\<lambda>k p. Inr (Response (str ''```json[1]```''))) (str ''cv'') world0 =
     (Inr (PList []), \<lparr>sent = [SkillsPrompt (str ''cv'')], ui = [format_warning]\<rparr>)"
proof -
  have c: "clean_reply (str ''```json[1]```'') = str ''[1]''"
    by (simp add: clean_reply_def strip_def str_def isspace_def)
  have j: "json_loads demo_lib (str ''[1]'') = Inr (PList [PInt 1])"
    by (simp add: demo_lib_def demo_loads_def)
  show ?thesis
    using extract_skills_shape [of "\<lambda>k p. Inr (Response (str ''```json[1]```''))" world0 "str ''cv''"
        "str ''```json[1]```''" demo_lib]
    by (simp add: c j world0_def emit_def)
qed

section \<open>Exceptions at the four call sites\<close>

text \<open>
  When the call to the service raises, the handler of \<open>extract_skills\<close> raises
  \<open>UnboundLocalError\<close> in turn, whatever the library and the state.
\<close>

lemma extract_skills_unbound:
  "model (length (sent s)) (SkillsPrompt resume_text) = Inl e \<Longrightarrow>
   \<exists>m. extract_skills lib model resume_text s =
         (Inl (UnboundLocalError m), s\<lparr>sent := sent s @ [SkillsPrompt resume_text]\<rparr>)"
  unfolding extract_skills_def extract_skills_try_def generate_content_def by simp

text \<open>
  The three other call sites ask whether \<open>response\<close> is bound: they never raise,
  and return their fallbacks when the call to the service raises.
\<close>

lemma generate_roadmap_result:
  "generate_roadmap lib model name age domain skills psychometric s =
     (Inr (roadmap_result lib model (RoadmapPrompt name age domain (join (str '', '') skills) psychometric) (length (sent s))),
      snd (generate_roadmap lib model name age domain skills psychometric s))"
  unfolding generate_roadmap_def generate_roadmap_try_def generate_content_def roadmap_result_def
  by (auto split: sum.splits prod.splits)

lemma generate_roadmap_sent:
  "sent (snd (generate_roadmap lib model name age domain skills psychometric s)) =
     sent s @ [RoadmapPrompt name age domain (join (str '', '') skills) psychometric]"
  unfolding generate_roadmap_def generate_roadmap_try_def generate_content_def emit_def
  by (auto split: sum.splits prod.splits)

lemma generate_roadmap_never_raises:
  "\<exists>r s'. generate_roadmap lib model name age domain skills psychometric s = (Inr r, s')"
  using generate_roadmap_result by blast

lemma skill_gap_analysis_never_raises:
  "\<exists>r s'. skill_gap_analysis lib model domain skills s = (Inr r, s')"
  unfolding skill_gap_analysis_def skill_gap_analysis_try_def generate_content_def
  by (auto split: sum.splits prod.splits)

lemma recommend_courses_never_raises:
  "\<exists>r s'. recommend_courses lib model domain s = (Inr r, s')"
  unfolding recommend_courses_def recommend_courses_try_def generate_content_def
  by (auto split: sum.splits prod.splits)

lemma fallbacks_when_service_raises:
  "model (length (sent s)) (RoadmapPrompt name age domain (join (str '', '') skills) psychometric) = Inl e \<Longrightarrow>
     fst (generate_roadmap lib model name age domain skills psychometric s) = Inr (PStr [], PStr [])"
  "model (length (sent s)) (GapPrompt (join (str '', '') skills) domain) = Inl e \<Longrightarrow>
     fst (skill_gap_analysis lib model domain skills s) = Inr (PDict [])"
  "model (length (sent s)) (CoursesPrompt domain) = Inl e \<Longrightarrow>
     fst (recommend_courses lib model domain s) = Inr []"
  unfolding generate_roadmap_def generate_roadmap_try_def skill_gap_analysis_def
    skill_gap_analysis_try_def recommend_courses_def recommend_courses_try_def generate_content_def
  by simp_all

text \<open>
  Claim C2 says that each of the four call sites catches every exception, warns and
  returns its fallback. For \<open>extract_skills\<close> the code does not: with a service that
  answers \<open>503 Service Unavailable\<close> by raising, the call ends in
  \<open>UnboundLocalError\<close>, with no warning shown and no list returned.
\<close>

theorem extract_skills_service_raises:
  "extract_skills demo_lib down_model (str ''cv'') world0 =
     (Inl (UnboundLocalError (str ''cannot access local variable '' @ [0x27] @ str ''response'' @ [0x27] @
                   str '' where it is not associated with a value'')),
      \<lparr>sent = [SkillsPrompt (str ''cv'')], ui = []\<rparr>)"
  by (simp add: extract_skills_def extract_skills_try_def generate_content_def down_model_def world0_def)

section \<open>Roadmap generation and its retry wrapper\<close>

lemma py_get_dict: "py_get (PDict kvs) key (PStr []) = Inr (value_or_empty kvs key)"
  by (simp add: value_or_empty_def)

lemma py_get_other: "\<not> is_dict v \<Longrightarrow> \<exists>m. py_get v key d = Inl (AttributeError m)"
  by (cases v) auto

text \<open>
  Claim C9. When the reply of the service, cleaned of its fences, parses as JSON to a dict,
  \<open>generate_roadmap\<close> returns the values of \<open>career_advice\<close> and
  \<open>roadmap_svg\<close>, with the empty string for a key that is absent, and shows nothing
  (the state differs by the request only). When it parses to a value that is not a dict,
  the result is the pair of empty strings, with a warning.
\<close>

theorem generate_roadmap_object:
  "model (length (sent s)) (RoadmapPrompt name age domain (join (str '', '') skills) psychometric)
     = Inr (Response t) \<Longrightarrow>
   json_loads lib (clean_reply t) = Inr data \<Longrightarrow>
   (\<forall>kvs. data = PDict kvs \<longrightarrow>
      generate_roadmap lib model name age domain skills psychometric s =
        (Inr (value_or_empty kvs (str ''career_advice''), value_or_empty kvs (str ''roadmap_svg'')),
         s\<lparr>sent := sent s @ [RoadmapPrompt name age domain (join (str '', '') skills) psychometric]\<rparr>)) \<and>
   (\<not> is_dict data \<longrightarrow>
      (\<exists>w. generate_roadmap lib model name age domain skills psychometric s =
        (Inr (PStr [], PStr []),
         emit (Warning w)
           (s\<lparr>sent := sent s @ [RoadmapPrompt name age domain (join (str '', '') skills) psychometric]\<rparr>))))"
proof (intro conjI allI impI)
  fix kvs assume a: "model (length (sent s)) (RoadmapPrompt name age domain (join (str '', '') skills) psychometric)
     = Inr (Response t)" "json_loads lib (clean_reply t) = Inr data" "data = PDict kvs"
  then show "generate_roadmap lib model name age domain skills psychometric s =
        (Inr (value_or_empty kvs (str ''career_advice''), value_or_empty kvs (str ''roadmap_svg'')),
         s\<lparr>sent := sent s @ [RoadmapPrompt name age domain (join (str '', '') skills) psychometric]\<rparr>)"
    unfolding generate_roadmap_def generate_roadmap_try_def generate_content_def
    by (simp add: value_or_empty_def)
next
  assume a: "model (length (sent s)) (RoadmapPrompt name age domain (join (str '', '') skills) psychometric)
     = Inr (Response t)" "json_loads lib (clean_reply t) = Inr data" "\<not> is_dict data"
  from py_get_other[OF a(3)] obtain m where "py_get data (str ''career_advice'') (PStr []) = Inl (AttributeError m)"
    by blast
  with a show "\<exists>w. generate_roadmap lib model name age domain skills psychometric s =
        (Inr (PStr [], PStr []),
         emit (Warning w)
           (s\<lparr>sent := sent s @ [RoadmapPrompt name age domain (join (str '', '') skills) psychometric]\<rparr>))"
    unfolding generate_roadmap_def generate_roadmap_try_def generate_content_def
    by (simp, blast)
qed

text \<open>
  An object in a fence with \<open>career_advice\<close> only: the advice and an empty diagram,
  and no call to the user interface.
\<close>

theorem generate_roadmap_object_witness:
  "generate_roadmap demo_lib (\<lambda>k p. Inr (Response fenced_advice))
      (str ''Asha'') 25 (str ''Data Science'') [str ''Python'', str ''SQL''] [] world0 =
     (Inr (PStr (str ''Learn SQL''), PStr []),
      \<lparr>sent = [RoadmapPrompt (str ''Asha'') 25 (str ''Data Science'') (str ''Python, SQL'') []], ui = []\<rparr>)"
proof -
  have c: "clean_reply fenced_advice = advice_text"
    by (simp add: fenced_advice_def clean_reply_def strip_def str_def isspace_def advice_text_def dq_def)
  have j: "json_loads demo_lib (clean_reply fenced_advice) =
             Inr (PDict [(str ''career_advice'', PStr (str ''Learn SQL''))])"
    unfolding c by (simp add: demo_lib_def demo_loads_def advice_text_def skills_text_def dq_def str_def)
  have jn: "join (str '', '') [str ''Python'', str ''SQL''] = str ''Python, SQL''"
    by (simp add: str_def)
  have v: "value_or_empty [(str ''career_advice'', PStr (str ''Learn SQL''))] (str ''career_advice'') = PStr (str ''Learn SQL'')"
     "value_or_empty [(str ''career_advice'', PStr (str ''Learn SQL''))] (str ''roadmap_svg'') = PStr []"
    by (simp_all add: value_or_empty_def str_inj)
  have m: "(\<lambda>k p. Inr (Response fenced_advice)) (length (sent world0))
             (RoadmapPrompt (str ''Asha'') 25 (str ''Data Science'')
                (join (str '', '') [str ''Python'', str ''SQL'']) []) = Inr (Response fenced_advice)"
    by simp
  have w: "world0\<lparr>sent := sent world0 @ [RoadmapPrompt (str ''Asha'') 25 (str ''Data Science'') (str ''Python, SQL'') []]\<rparr>
            = \<lparr>sent = [RoadmapPrompt (str ''Asha'') 25 (str ''Data Science'') (str ''Python, SQL'') []], ui = []\<rparr>"
    by (simp add: world0_def)
  from generate_roadmap_object [OF m j, THEN conjunct1, rule_format, OF refl]
  have "generate_roadmap demo_lib (\<lambda>k p. Inr (Response fenced_advice))
      (str ''Asha'') 25 (str ''Data Science'') [str ''Python'', str ''SQL''] [] world0 =
     (Inr (value_or_empty [(str ''career_advice'', PStr (str ''Learn SQL''))] (str ''career_advice''),
           value_or_empty [(str ''career_advice'', PStr (str ''Learn SQL''))] (str ''roadmap_svg'')),
      world0\<lparr>sent := sent world0 @ [RoadmapPrompt (str ''Asha'') 25 (str ''Data Science'')
                (join (str '', '') [str ''Python'', str ''SQL'']) []]\<rparr>)" .
  then show ?thesis
    unfolding v jn w .
qed

lemma retry_loop_spec:
  assumes p_def: "p = RoadmapPrompt name age domain (join (str '', '') skills) psychometric"
  shows "retry_loop lib model name age domain skills psychometric retries as s = (r, s') \<Longrightarrow>
   \<exists>j \<le> length as. sent s' = sent s @ replicate j p \<and>
     ((1 \<le> j \<and> r = Inr (roadmap_result lib model p (length (sent s) + (j - 1))) \<and>
       truthy (fst (roadmap_result lib model p (length (sent s) + (j - 1)))) \<and>
       (\<forall>k < j - 1. \<not> truthy (fst (roadmap_result lib model p (length (sent s) + k)))))
      \<or> (j = length as \<and> r = Inr (PStr [], PStr []) \<and>
          (\<forall>k < j. \<not> truthy (fst (roadmap_result lib model p (length (sent s) + k))))))"
proof (induction as arbitrary: s)
  case Nil
  then show ?case by auto
next
  case (Cons a as)
  let ?g = "generate_roadmap lib model name age domain skills psychometric s"
  let ?r0 = "roadmap_result lib model p (length (sent s))"
  define sg where "sg = snd ?g"
  have g: "?g = (Inr ?r0, sg)"
    unfolding p_def sg_def by (rule generate_roadmap_result)
  have gs: "sent sg = sent s @ [p]"
    unfolding p_def sg_def by (rule generate_roadmap_sent)
  show ?case
  proof (cases "truthy (fst ?r0)")
    case True
    with Cons.prems have "r = Inr ?r0" "s' = sg"
      by (simp_all add: g case_prod_beta)
    with True gs show ?thesis
      by (intro exI[of _ 1]) auto
  next
    case False
    define s1 where "s1 = emit (Info (str ''Retrying roadmap generation... (Attempt '' @
                          str_of_int (a + 1) @ str ''/'' @ str_of_int (retries + 1) @ str '')'')) sg"
    have s1s: "sent s1 = sent s @ [p]"
      using gs by (simp add: s1_def emit_def)
    from Cons.prems False
    have "retry_loop lib model name age domain skills psychometric retries as s1 = (r, s')"
      by (simp add: g case_prod_beta s1_def)
    from Cons.IH[OF this] obtain j where j: "j \<le> length as" "sent s' = sent s1 @ replicate j p"
      and d: "(1 \<le> j \<and> r = Inr (roadmap_result lib model p (length (sent s1) + (j - 1))) \<and>
       truthy (fst (roadmap_result lib model p (length (sent s1) + (j - 1)))) \<and>
       (\<forall>k < j - 1. \<not> truthy (fst (roadmap_result lib model p (length (sent s1) + k)))))
      \<or> (j = length as \<and> r = Inr (PStr [], PStr []) \<and>
          (\<forall>k < j. \<not> truthy (fst (roadmap_result lib model p (length (sent s1) + k)))))"
      by blast
    have len: "length (sent s1) = Suc (length (sent s))"
      by (simp add: s1s)
    have rep: "sent s' = sent s @ replicate (Suc j) p"
      using j(2) s1s by (simp add: replicate_app_Cons_same)
    have nt: "\<And>k. k < Suc m \<Longrightarrow> (\<forall>i < m. \<not> truthy (fst (roadmap_result lib model p (Suc (length (sent s)) + i)))) \<Longrightarrow>
        \<not> truthy (fst (roadmap_result lib model p (length (sent s) + k)))" for m
    proof -
      fix k assume k: "k < Suc m" and h: "\<forall>i < m. \<not> truthy (fst (roadmap_result lib model p (Suc (length (sent s)) + i)))"
      show "\<not> truthy (fst (roadmap_result lib model p (length (sent s) + k)))"
      proof (cases k)
        case 0
        with False show ?thesis by simp
      next
        case (Suc i)
        with k h show ?thesis by simp
      qed
    qed
    from d show ?thesis
    proof
      assume a1: "1 \<le> j \<and> r = Inr (roadmap_result lib model p (length (sent s1) + (j - 1))) \<and>
       truthy (fst (roadmap_result lib model p (length (sent s1) + (j - 1)))) \<and>
       (\<forall>k < j - 1. \<not> truthy (fst (roadmap_result lib model p (length (sent s1) + k))))"
      then have eq: "length (sent s1) + (j - 1) = length (sent s) + (Suc j - 1)"
        using len by simp
      have "\<forall>k < Suc j - 1. \<not> truthy (fst (roadmap_result lib model p (length (sent s) + k)))"
        using a1 nt[of _ "j - 1"] len by auto
      with a1 eq rep j(1) show ?thesis
        by (intro exI[of _ "Suc j"]) auto
    next
      assume a2: "j = length as \<and> r = Inr (PStr [], PStr []) \<and>
          (\<forall>k < j. \<not> truthy (fst (roadmap_result lib model p (length (sent s1) + k))))"
      have "\<forall>k < Suc j. \<not> truthy (fst (roadmap_result lib model p (length (sent s) + k)))"
        using a2 nt[of _ j] len by auto
      with a2 rep show ?thesis
        by (intro exI[of _ "Suc j"]) auto
    qed
  qed
qed

text \<open>
  Claim C1. For a retry count that is not negative, \<open>generate_roadmap_with_retry\<close>
  makes \<open>j\<close> calls with \<open>j \<le> retries + 1\<close>. Either the \<open>j\<close>-th call is the
  first whose \<open>career_advice\<close> is true in the sense of \<open>if career_advice:\<close> (for a
  string: not empty), and its pair is returned with the \<open>roadmap_svg\<close> as it is; or
  no call had such advice, \<open>j = retries + 1\<close>, and the pair of empty strings is
  returned. The results of the calls are those of \<open>generate_roadmap\<close> for the
  successive requests of the session.
\<close>

theorem retry_wrapper:
  "0 \<le> retries \<Longrightarrow>
   generate_roadmap_with_retry lib model name age domain skills psychometric retries s = (r, s') \<Longrightarrow>
   p = RoadmapPrompt name age domain (join (str '', '') skills) psychometric \<Longrightarrow>
   \<exists>j. int j \<le> retries + 1 \<and> sent s' = sent s @ replicate j p \<and>
     ((1 \<le> j \<and> r = Inr (roadmap_result lib model p (length (sent s) + (j - 1))) \<and>
       truthy (fst (roadmap_result lib model p (length (sent s) + (j - 1)))) \<and>
       (\<forall>k < j - 1. \<not> truthy (fst (roadmap_result lib model p (length (sent s) + k)))))
      \<or> (int j = retries + 1 \<and> r = Inr (PStr [], PStr []) \<and>
          (\<forall>k < j. \<not> truthy (fst (roadmap_result lib model p (length (sent s) + k))))))"
proof -
  assume r0: "0 \<le> retries"
    and g: "generate_roadmap_with_retry lib model name age domain skills psychometric retries s = (r, s')"
    and p: "p = RoadmapPrompt name age domain (join (str '', '') skills) psychometric"
  have len: "int (length [0..retries]) = retries + 1"
    using r0 by simp
  from g have "retry_loop lib model name age domain skills psychometric retries [0..retries] s = (r, s')"
    by (simp add: generate_roadmap_with_retry_def)
  from retry_loop_spec[OF p this] len show ?thesis
    by (metis (no_types, lifting) of_nat_le_iff)
qed

text \<open>
  With a service whose first reply is no JSON and whose second is an object with
  advice, and the default of two retries: two requests, and the advice of the second.
\<close>

lemma result0: "roadmap_result demo_lib flaky_model demo_prompt 0 = (PStr [], PStr [])"
  by (simp add: roadmap_result_def generate_roadmap_try_def generate_content_def flaky_model_def
      clean_oops loads_oops)

lemma result1: "roadmap_result demo_lib flaky_model demo_prompt (Suc 0) = (PStr (str ''Learn SQL''), PStr [])"
  by (simp add: roadmap_result_def generate_roadmap_try_def generate_content_def flaky_model_def
      clean_fenced_advice loads_advice str_inj)

theorem retry_wrapper_witness:
  "fst (generate_roadmap_with_retry demo_lib flaky_model (str ''Asha'') 25 (str ''Data Science'')
          [str ''Python'', str ''SQL''] [] 2 world0) = Inr (PStr (str ''Learn SQL''), PStr []) \<and>
   sent (snd (generate_roadmap_with_retry demo_lib flaky_model (str ''Asha'') 25 (str ''Data Science'')
          [str ''Python'', str ''SQL''] [] 2 world0)) = [demo_prompt, demo_prompt]"
proof -
  let ?run = "generate_roadmap_with_retry demo_lib flaky_model (str ''Asha'') 25 (str ''Data Science'')
          [str ''Python'', str ''SQL''] [] 2 world0"
  have h0: "(0::int) \<le> 2" by simp
  have hr: "?run = (fst ?run, snd ?run)" by simp
  from retry_wrapper [OF h0 hr demo_prompt_def]
  obtain j where j: "int j \<le> 2 + 1" "sent (snd ?run) = sent world0 @ replicate j demo_prompt"
    and d: "(1 \<le> j \<and> fst ?run = Inr (roadmap_result demo_lib flaky_model demo_prompt (length (sent world0) + (j - 1))) \<and>
       truthy (fst (roadmap_result demo_lib flaky_model demo_prompt (length (sent world0) + (j - 1)))) \<and>
       (\<forall>k < j - 1. \<not> truthy (fst (roadmap_result demo_lib flaky_model demo_prompt (length (sent world0) + k)))))
      \<or> (int j = 2 + 1 \<and> fst ?run = Inr (PStr [], PStr []) \<and>
          (\<forall>k < j. \<not> truthy (fst (roadmap_result demo_lib flaky_model demo_prompt (length (sent world0) + k)))))"
    by blast
  have w0: "sent world0 = []" by (simp add: world0_def)
  have t1: "truthy (fst (roadmap_result demo_lib flaky_model demo_prompt (Suc 0)))"
    by (simp add: result1 str_def)
  have t0: "\<not> truthy (fst (roadmap_result demo_lib flaky_model demo_prompt 0))"
    by (simp add: result0)
  have j2: "j = 2"
  proof -
    from d show ?thesis
    proof
      assume a: "1 \<le> j \<and> fst ?run = Inr (roadmap_result demo_lib flaky_model demo_prompt (length (sent world0) + (j - 1))) \<and>
       truthy (fst (roadmap_result demo_lib flaky_model demo_prompt (length (sent world0) + (j - 1)))) \<and>
       (\<forall>k < j - 1. \<not> truthy (fst (roadmap_result demo_lib flaky_model demo_prompt (length (sent world0) + k))))"
      then have nj: "j - 1 \<noteq> 0" using t0 w0 by auto
      have "\<not> 1 < j - 1"
      proof
        assume "1 < j - 1"
        with a have "\<not> truthy (fst (roadmap_result demo_lib flaky_model demo_prompt (length (sent world0) + 1)))"
          by blast
        with t1 w0 show False by simp
      qed
      with nj show ?thesis by arith
    next
      assume b: "int j = 2 + 1 \<and> fst ?run = Inr (PStr [], PStr []) \<and>
          (\<forall>k < j. \<not> truthy (fst (roadmap_result demo_lib flaky_model demo_prompt (length (sent world0) + k))))"
      then have "1 < j" by arith
      with b have "\<not> truthy (fst (roadmap_result demo_lib flaky_model demo_prompt (length (sent world0) + 1)))"
        by blast
      with t1 w0 show ?thesis by simp
    qed
  qed
  from d j2 t1 w0 have "fst ?run = Inr (roadmap_result demo_lib flaky_model demo_prompt (Suc 0))"
    by auto
  with j(2) j2 w0 show ?thesis
    by (simp add: result1 numeral_2_eq_2)
qed

section \<open>Course recommendation\<close>

lemma re_lit_iff: "r \<in> set (re_lit l t) \<longleftrightarrow> t = l @ r"
  by (auto simp: re_lit_def prefix_def)

lemma re_seq_iff: "r \<in> set (re_seq m1 m2 t) \<longleftrightarrow> (\<exists>r1. r1 \<in> set (m1 t) \<and> r \<in> set (m2 r1))"
  by (auto simp: re_seq_def)

lemma re_alt_iff: "r \<in> set (re_alt m1 m2 t) \<longleftrightarrow> r \<in> set (m1 t) \<or> r \<in> set (m2 t)"
  by (auto simp: re_alt_def)

lemma re_opt_iff: "r \<in> set (re_opt m t) \<longleftrightarrow> r \<in> set (m t) \<or> r = t"
  by (auto simp: re_opt_def)

lemma re_plus_shape:
  "r \<in> set (re_plus p t) \<Longrightarrow> \<exists>ident. ident \<noteq> [] \<and> list_all p ident \<and> t = ident @ r"
proof (induction t)
  case Nil
  then show ?case by simp
next
  case (Cons c cs)
  show ?case
  proof (cases "p c")
    case False
    with Cons.prems show ?thesis by simp
  next
    case True
    with Cons.prems have "r \<in> set (re_plus p cs) \<or> r = cs" by auto
    then show ?thesis
    proof
      assume "r \<in> set (re_plus p cs)"
      from Cons.IH[OF this] obtain ident where "ident \<noteq> []" "list_all p ident" "cs = ident @ r"
        by blast
      with True show ?thesis
        by (intro exI[of _ "c # ident"]) simp
    next
      assume "r = cs"
      with True show ?thesis
        by (intro exI[of _ "[c]"]) simp
    qed
  qed
qed

lemma youtube_re_shape:
  assumes "r \<in> set (youtube_re w t)"
  shows "\<exists>sch www host path ident.
           sch \<in> {[], str ''s''} \<and> www \<in> {[], str ''www.''} \<and>
           host \<in> {str ''youtube.com'', str ''youtu.be''} \<and>
           path \<in> {str ''watch?v='', str ''playlist?list=''} \<and>
           ident \<noteq> [] \<and> list_all (\<lambda>c. w c \<or> c = 0x2D) ident \<and>
           t = str ''http'' @ sch @ str ''://'' @ www @ host @ str ''/'' @ path @ ident @ r"
proof -
  from assms obtain r1 r2 r3 r4 r5 r6 r7 where
    1: "t = str ''http'' @ r1" and
    2: "r2 \<in> set (re_opt (re_lit (str ''s'')) r1)" and
    3: "r2 = str ''://'' @ r3" and
    4: "r4 \<in> set (re_opt (re_lit (str ''www.'')) r3)" and
    5: "r5 \<in> set (re_alt (re_lit (str ''youtube.com'')) (re_lit (str ''youtu.be'')) r4)" and
    6: "r5 = str ''/'' @ r6" and
    7: "r7 \<in> set (re_alt (re_lit (str ''watch?v='')) (re_lit (str ''playlist?list='')) r6)" and
    8: "r \<in> set (re_plus (\<lambda>c. w c \<or> c = 0x2D) r7)"
    unfolding youtube_re_def re_seq_iff re_lit_iff by blast
  from 2 obtain sch where s: "sch \<in> {[], str ''s''}" "r1 = sch @ r2"
    unfolding re_opt_iff re_lit_iff by auto
  from 4 obtain www where w: "www \<in> {[], str ''www.''}" "r3 = www @ r4"
    unfolding re_opt_iff re_lit_iff by auto
  from 5 obtain host where h: "host \<in> {str ''youtube.com'', str ''youtu.be''}" "r4 = host @ r5"
    unfolding re_alt_iff re_lit_iff by auto
  from 7 obtain path where p: "path \<in> {str ''watch?v='', str ''playlist?list=''}" "r6 = path @ r7"
    unfolding re_alt_iff re_lit_iff by auto
  from re_plus_shape[OF 8] obtain ident where i: "ident \<noteq> []" "list_all (\<lambda>c. w c \<or> c = 0x2D) ident"
    "r7 = ident @ r" by blast
  have "t = str ''http'' @ sch @ str ''://'' @ www @ host @ str ''/'' @ path @ ident @ r"
    unfolding 1 s(2) 3 w(2) h(2) 6 p(2) i(3) by simp
  with s(1) w(1) h(1) p(1) i(1,2) show ?thesis by blast
qed

lemma youtube_re_shorter:
  assumes "r \<in> set (youtube_re w t)"
  shows "length r < length t"
proof -
  from youtube_re_shape[OF assms] obtain sch www host path ident where i: "ident \<noteq> []"
    and t: "t = str ''http'' @ sch @ str ''://'' @ www @ host @ str ''/'' @ path @ ident @ r"
    by blast
  from t have "length t =
     length (str ''http'' @ sch @ str ''://'' @ www @ host @ str ''/'' @ path) + length ident + length r"
    by simp
  moreover from i have "0 < length ident" by simp
  ultimately show ?thesis by arith
qed

lemma in_yt_prefixes:
  "sch \<in> {[], str ''s''} \<Longrightarrow> www \<in> {[], str ''www.''} \<Longrightarrow>
   host \<in> {str ''youtube.com'', str ''youtu.be''} \<Longrightarrow>
   path \<in> {str ''watch?v='', str ''playlist?list=''} \<Longrightarrow>
   str ''http'' @ sch @ str ''://'' @ www @ host @ str ''/'' @ path \<in> set yt_prefixes"
  unfolding yt_prefixes_def by auto

lemma match_is_url:
  assumes "youtube_re w t = r # rs"
  shows "youtube_url w (take (length t - length r) t)"
proof -
  have "r \<in> set (youtube_re w t)" using assms by simp
  from youtube_re_shape[OF this] obtain sch www host path ident where
    a: "sch \<in> {[], str ''s''}" "www \<in> {[], str ''www.''}"
       "host \<in> {str ''youtube.com'', str ''youtu.be''}"
       "path \<in> {str ''watch?v='', str ''playlist?list=''}"
       "ident \<noteq> []" "list_all (\<lambda>c. w c \<or> c = 0x2D) ident"
       "t = str ''http'' @ sch @ str ''://'' @ www @ host @ str ''/'' @ path @ ident @ r"
    by blast
  define q where "q = str ''http'' @ sch @ str ''://'' @ www @ host @ str ''/'' @ path"
  have t: "t = (q @ ident) @ r" using a(7) by (simp add: q_def)
  have "take (length ((q @ ident) @ r) - length r) ((q @ ident) @ r) = q @ ident"
    by simp
  then have tk: "take (length t - length r) t = q @ ident"
    by (simp only: t[symmetric])
  have pin: "q \<in> set yt_prefixes"
    unfolding q_def using a(1-4) by (rule in_yt_prefixes)
  show ?thesis
    unfolding youtube_url_def tk list_ex_iff
    by (rule bexI[OF _ pin]) (simp add: a(5,6))
qed

lemma findall_urls: "u \<in> set (findall w t) \<Longrightarrow> youtube_url w u"
proof (induction w t rule: findall.induct)
  case (1 w t)
  show ?case
  proof (cases "t = []")
    case True
    with "1.prems" show ?thesis by (simp add: findall.simps)
  next
    case False
    show ?thesis
    proof (cases "youtube_re w t")
      case Nil
      with False "1.prems" have "u \<in> set (findall w (tl t))"
        by (subst (asm) findall.simps) simp
      with "1.IH"(1)[OF False Nil] show ?thesis .
    next
      case (Cons r rs)
      then have sh: "length r < length t"
        using youtube_re_shorter[of r w t] by simp
      with False Cons "1.prems" have "u = take (length t - length r) t \<or> u \<in> set (findall w r)"
        by (subst (asm) findall.simps) auto
      then show ?thesis
      proof
        assume "u = take (length t - length r) t"
        with match_is_url[OF Cons] show ?thesis by simp
      next
        assume "u \<in> set (findall w r)"
        with "1.IH"(2)[OF False Cons sh] show ?thesis .
      qed
    qed
  qed
qed

lemma findall_matches:
  "u \<in> set (findall w t) \<Longrightarrow>
   \<exists>t' r rs. youtube_re w t' = r # rs \<and> u = take (length t' - length r) t'"
proof (induction w t rule: findall.induct)
  case (1 w t)
  show ?case
  proof (cases "t = []")
    case True
    with "1.prems" show ?thesis by (simp add: findall.simps)
  next
    case False
    show ?thesis
    proof (cases "youtube_re w t")
      case Nil
      with False "1.prems" have "u \<in> set (findall w (tl t))"
        by (subst (asm) findall.simps) simp
      with "1.IH"(1)[OF False Nil] show ?thesis .
    next
      case (Cons r rs)
      then have sh: "length r < length t"
        using youtube_re_shorter[of r w t] by simp
      with False Cons "1.prems" have "u = take (length t - length r) t \<or> u \<in> set (findall w r)"
        by (subst (asm) findall.simps) auto
      then show ?thesis
      proof
        assume "u = take (length t - length r) t"
        with Cons show ?thesis by blast
      next
        assume "u \<in> set (findall w r)"
        with "1.IH"(2)[OF False Cons sh] show ?thesis .
      qed
    qed
  qed
qed

lemma match_parts:
  assumes "youtube_re w t = r # rs"
  shows "\<exists>sch www host path ident.
           sch \<in> {[], str ''s''} \<and> www \<in> {[], str ''www.''} \<and>
           host \<in> {str ''youtube.com'', str ''youtu.be''} \<and>
           path \<in> {str ''watch?v='', str ''playlist?list=''} \<and>
           take (length t - length r) t =
             str ''http'' @ sch @ str ''://'' @ www @ host @ str ''/'' @ path @ ident"
proof -
  have "r \<in> set (youtube_re w t)" using assms by simp
  from youtube_re_shape[OF this] obtain sch www host path ident where
    a: "sch \<in> {[], str ''s''}" "www \<in> {[], str ''www.''}"
       "host \<in> {str ''youtube.com'', str ''youtu.be''}"
       "path \<in> {str ''watch?v='', str ''playlist?list=''}"
       "t = str ''http'' @ sch @ str ''://'' @ www @ host @ str ''/'' @ path @ ident @ r"
    by blast
  define q where "q = str ''http'' @ sch @ str ''://'' @ www @ host @ str ''/'' @ path @ ident"
  have t: "t = q @ r" using a(5) by (simp add: q_def)
  have "take (length (q @ r) - length r) (q @ r) = q" by simp
  then have "take (length t - length r) t = q" by (simp only: t[symmetric])
  with a(1-4) show ?thesis unfolding q_def by blast
qed

lemma scheme_prefix:
  assumes "sch \<in> {[], str ''s''}"
  shows "prefix (str ''http://'') (str ''http'' @ sch @ str ''://'' @ rest) \<or>
         prefix (str ''https://'') (str ''http'' @ sch @ str ''://'' @ rest)"
proof -
  have 1: "str ''http://'' = str ''http'' @ [] @ str ''://''"
    by (simp add: str_def)
  have 2: "str ''https://'' = str ''http'' @ str ''s'' @ str ''://''"
    by (simp add: str_def)
  from assms show ?thesis
  proof
    assume "sch = []"
    then show ?thesis unfolding 1 by simp
  next
    assume "sch \<in> {str ''s''}"
    then have "sch = str ''s''" by simp
    then show ?thesis unfolding 2 by simp
  qed
qed

lemma list_of_set_props:
  "distinct (list_of_set lib xs)" "set (list_of_set lib xs) = set xs"
  by (simp_all add: list_of_set_def)

lemma recommend_courses_reply:
  "model (length (sent s)) (CoursesPrompt domain) = Inr (Response t) \<Longrightarrow>
   recommend_courses lib model domain s =
     (Inr (list_of_set lib [u \<leftarrow> findall (isword lib) t.
              contains (str ''youtube.com'') u \<or> contains (str ''youtu.be'') u]),
      s\<lparr>sent := sent s @ [CoursesPrompt domain]\<rparr>)"
  unfolding recommend_courses_def recommend_courses_try_def generate_content_def
  by simp

lemma findall_bare: "findall w bare_link = []"
  unfolding bare_link_def
  by (simp add: findall.simps youtube_re_def re_seq_def re_lit_def re_alt_def re_opt_def str_def)

lemma findall_twice: "findall ascii_word twice_text = [watch_link, watch_link]"
  unfolding twice_text_def watch_link_def
  by (simp add: findall.simps youtube_re_def re_seq_def re_lit_def re_alt_def re_opt_def str_def
        ascii_word_def)

lemma courses_twice:
  "fst (recommend_courses demo_lib (\<lambda>k p. Inr (Response twice_text)) (str ''Data Science'') world0)
     = Inr [watch_link]"
proof -
  have "recommend_courses demo_lib (\<lambda>k p. Inr (Response twice_text)) (str ''Data Science'') world0 =
     (Inr (list_of_set demo_lib [u \<leftarrow> findall (isword demo_lib) twice_text.
              contains (str ''youtube.com'') u \<or> contains (str ''youtu.be'') u]),
      world0\<lparr>sent := sent world0 @ [CoursesPrompt (str ''Data Science'')]\<rparr>)"
    by (rule recommend_courses_reply) simp
  moreover have "isword demo_lib = ascii_word"
    by (simp add: demo_lib_def)
  moreover have "contains (str ''youtu.be'') watch_link"
    by (simp add: watch_link_def str_def)
  ultimately show ?thesis
    by (simp add: findall_twice list_of_set_def)
qed

text \<open>
  Claim C5. For every textual reply of the service, the list that
  \<open>recommend_courses\<close> returns has no element twice, and every element is a
  YouTube-style URL; so a URL that the reply holds several times is in the result at most
  once. This holds for every class \<open>\w\<close> and every iteration order of the set.
\<close>

theorem recommend_courses_urls:
  "model (length (sent s)) (CoursesPrompt domain) = Inr (Response t) \<Longrightarrow>
   \<exists>urls. fst (recommend_courses lib model domain s) = Inr urls \<and> distinct urls \<and>
          (\<forall>u \<in> set urls. youtube_url (isword lib) u)"
proof -
  assume m: "model (length (sent s)) (CoursesPrompt domain) = Inr (Response t)"
  let ?urls = "list_of_set lib [u \<leftarrow> findall (isword lib) t.
              contains (str ''youtube.com'') u \<or> contains (str ''youtu.be'') u]"
  have 1: "fst (recommend_courses lib model domain s) = Inr ?urls"
    by (simp add: recommend_courses_reply[of model s domain t lib, OF m])
  have 2: "distinct ?urls" by (rule list_of_set_props)
  have 3: "\<forall>u \<in> set ?urls. youtube_url (isword lib) u"
    by (auto simp: list_of_set_props dest: findall_urls)
  from 1 2 3 show ?thesis by blast
qed

text \<open>
  A reply that holds the same link twice gives the list of that one link.
\<close>

theorem recommend_courses_urls_witness:
  "fst (recommend_courses demo_lib (\<lambda>k p. Inr (Response twice_text)) (str ''Data Science'') world0)
     = Inr [watch_link] \<and> youtube_url ascii_word watch_link"
proof -
  have m: "(\<lambda>k p. Inr (Response twice_text)) (length (sent world0)) (CoursesPrompt (str ''Data Science''))
             = Inr (Response twice_text)"
    by simp
  from recommend_courses_urls [of "\<lambda>k p. Inr (Response twice_text)" world0 "str ''Data Science''"
      twice_text demo_lib, OF m]
  obtain urls where u: "fst (recommend_courses demo_lib (\<lambda>k p. Inr (Response twice_text))
        (str ''Data Science'') world0) = Inr urls" "distinct urls"
      "\<forall>u \<in> set urls. youtube_url (isword demo_lib) u"
    by blast
  from u(1) courses_twice have "urls = [watch_link]" by simp
  with u(3) have "youtube_url (isword demo_lib) watch_link" by simp
  then have "youtube_url ascii_word watch_link" by (simp add: demo_lib_def)
  with courses_twice show ?thesis by simp
qed

text \<open>
  Claim C10. Every URL that \<open>recommend_courses\<close> returns begins with
  \<open>http://\<close> or \<open>https://\<close> and holds \<open>watch?v=\<close> or
  \<open>playlist?list=\<close> behind a host \<open>youtube.com\<close> or \<open>youtu.be\<close>; and for
  the reply that is the bare short link \<open>https://youtu.be/dQw4w9WgXcQ\<close> the result is
  empty, so the link is not in it.
\<close>

theorem recommend_courses_watch_or_playlist:
  "(model (length (sent s)) (CoursesPrompt domain) = Inr (Response t) \<longrightarrow>
      (\<exists>urls. fst (recommend_courses lib model domain s) = Inr urls \<and>
         (\<forall>u \<in> set urls.
            (prefix (str ''http://'') u \<or> prefix (str ''https://'') u) \<and>
            (\<exists>a host b path c.
               host \<in> {str ''youtube.com'', str ''youtu.be''} \<and>
               path \<in> {str ''watch?v='', str ''playlist?list=''} \<and>
               u = a @ host @ b @ path @ c)))) \<and>
   fst (recommend_courses lib (\<lambda>k p. Inr (Response bare_link)) domain s) = Inr []"
proof (intro conjI impI)
  assume m: "model (length (sent s)) (CoursesPrompt domain) = Inr (Response t)"
  let ?urls = "list_of_set lib [u \<leftarrow> findall (isword lib) t.
              contains (str ''youtube.com'') u \<or> contains (str ''youtu.be'') u]"
  have 1: "fst (recommend_courses lib model domain s) = Inr ?urls"
    by (simp add: recommend_courses_reply[of model s domain t lib, OF m])
  have 2: "(prefix (str ''http://'') u \<or> prefix (str ''https://'') u) \<and>
            (\<exists>a host b path c.
               host \<in> {str ''youtube.com'', str ''youtu.be''} \<and>
               path \<in> {str ''watch?v='', str ''playlist?list=''} \<and>
               u = a @ host @ b @ path @ c)" if u: "u \<in> set ?urls" for u
  proof -
    from u have "u \<in> set (findall (isword lib) t)"
      by (simp add: list_of_set_props)
    from findall_matches[OF this] obtain t' r rs where
      mt: "youtube_re (isword lib) t' = r # rs" "u = take (length t' - length r) t'"
      by blast
    from match_parts[OF mt(1)] obtain sch www host path ident where
      b: "sch \<in> {[], str ''s''}"
         "host \<in> {str ''youtube.com'', str ''youtu.be''}"
         "path \<in> {str ''watch?v='', str ''playlist?list=''}"
         "take (length t' - length r) t' =
            str ''http'' @ sch @ str ''://'' @ www @ host @ str ''/'' @ path @ ident"
      by blast
    have u4: "u = str ''http'' @ sch @ str ''://'' @ www @ host @ str ''/'' @ path @ ident"
      by (simp only: mt(2) b(4))
    note a = b(1-3) u4
    have p: "prefix (str ''http://'') u \<or> prefix (str ''https://'') u"
      unfolding a(4) using a(1) by (rule scheme_prefix)
    have "u = (str ''http'' @ sch @ str ''://'' @ www) @ host @ str ''/'' @ path @ ident"
      using a(4) by simp
    with a(2,3) have "\<exists>a host b path c.
               host \<in> {str ''youtube.com'', str ''youtu.be''} \<and>
               path \<in> {str ''watch?v='', str ''playlist?list=''} \<and>
               u = a @ host @ b @ path @ c"
      by blast
    with p show ?thesis by blast
  qed
  from 1 2 show "\<exists>urls. fst (recommend_courses lib model domain s) = Inr urls \<and>
         (\<forall>u \<in> set urls.
            (prefix (str ''http://'') u \<or> prefix (str ''https://'') u) \<and>
            (\<exists>a host b path c.
               host \<in> {str ''youtube.com'', str ''youtu.be''} \<and>
               path \<in> {str ''watch?v='', str ''playlist?list=''} \<and>
               u = a @ host @ b @ path @ c))"
    by blast
next
  have "recommend_courses lib (\<lambda>k p. Inr (Response bare_link)) domain s =
     (Inr (list_of_set lib [u \<leftarrow> findall (isword lib) bare_link.
              contains (str ''youtube.com'') u \<or> contains (str ''youtu.be'') u]),
      s\<lparr>sent := sent s @ [CoursesPrompt domain]\<rparr>)"
    by (rule recommend_courses_reply) simp
  then show "fst (recommend_courses lib (\<lambda>k p. Inr (Response bare_link)) domain s) = Inr []"
    by (simp add: findall_bare list_of_set_def)
qed

text \<open>
  The link of the reply that holds it twice has the shape; the bare link gives nothing.
\<close>

theorem recommend_courses_watch_or_playlist_witness:
  "(\<exists>a host b path c.
      host \<in> {str ''youtube.com'', str ''youtu.be''} \<and>
      path \<in> {str ''watch?v='', str ''playlist?list=''} \<and>
      watch_link = a @ host @ b @ path @ c) \<and>
   fst (recommend_courses demo_lib (\<lambda>k p. Inr (Response bare_link)) (str ''Data Science'') world0)
     = Inr []"
proof -
  have m: "(\<lambda>k p. Inr (Response twice_text)) (length (sent world0)) (CoursesPrompt (str ''Data Science''))
             = Inr (Response twice_text)"
    by simp
  note T = recommend_courses_watch_or_playlist [of "\<lambda>k p. Inr (Response twice_text)" world0
      "str ''Data Science''" twice_text demo_lib]
  from T[THEN conjunct1, rule_format, OF m]
  obtain urls where u: "fst (recommend_courses demo_lib (\<lambda>k p. Inr (Response twice_text))
        (str ''Data Science'') world0) = Inr urls"
      "\<forall>u \<in> set urls.
            (prefix (str ''http://'') u \<or> prefix (str ''https://'') u) \<and>
            (\<exists>a host b path c.
               host \<in> {str ''youtube.com'', str ''youtu.be''} \<and>
               path \<in> {str ''watch?v='', str ''playlist?list=''} \<and>
               u = a @ host @ b @ path @ c)"
    by blast
  from u(1) courses_twice have "urls = [watch_link]" by simp
  with u(2) have "\<exists>a host b path c.
      host \<in> {str ''youtube.com'', str ''youtu.be''} \<and>
      path \<in> {str ''watch?v='', str ''playlist?list=''} \<and>
      watch_link = a @ host @ b @ path @ c"
    by simp
  with T[THEN conjunct2] show ?thesis by blast
qed

section \<open>The QR code of the courses\<close>








section \<open>Manual entry of skills\<close>

lemma split_on_ne: "split_on sep s \<noteq> []"
  by (induction s) (auto split: list.splits)

lemma split_on_join: "join [sep] (split_on sep s) = s"
proof (induction s)
  case Nil
  show ?case by simp
next
  case (Cons c cs)
  obtain t ts where ts: "split_on sep cs = t # ts"
    using split_on_ne[of sep cs] by (cases "split_on sep cs") auto
  show ?case
  proof (cases "c = sep")
    case True
    with Cons ts show ?thesis by simp
  next
    case False
    with Cons ts show ?thesis by (cases ts) auto
  qed
qed

lemma split_on_nosep: "t \<in> set (split_on sep s) \<Longrightarrow> sep \<notin> set t"
  by (induction s arbitrary: t) (auto split: list.splits if_splits)

lemma strip_decomp:
  "\<exists>a b. t = a @ strip t @ b \<and> list_all isspace a \<and> list_all isspace b"
proof -
  let ?u = "dropWhile isspace t"
  have t: "t = takeWhile isspace t @ ?u" by simp
  have "rev ?u = takeWhile isspace (rev ?u) @ dropWhile isspace (rev ?u)" by simp
  then have "rev (rev ?u) = rev (takeWhile isspace (rev ?u) @ dropWhile isspace (rev ?u))"
    by (rule arg_cong)
  then have "?u = rev (dropWhile isspace (rev ?u)) @ rev (takeWhile isspace (rev ?u))"
    by (simp only: rev_rev_ident rev_append)
  then have u: "?u = strip t @ rev (takeWhile isspace (rev ?u))"
    by (simp only: strip_def)
  have a: "list_all isspace (takeWhile isspace t)"
    by (simp add: list_all_iff) (meson set_takeWhileD)
  have b: "list_all isspace (rev (takeWhile isspace (rev ?u)))"
    by (simp add: list_all_iff) (meson set_takeWhileD)
  from t u have "t = takeWhile isspace t @ strip t @ rev (takeWhile isspace (rev ?u))"
    by metis
  with a b show ?thesis by blast
qed

lemma strip_ends:
  assumes "strip t \<noteq> []"
  shows "\<not> isspace (hd (strip t)) \<and> \<not> isspace (last (strip t))"
proof -
  let ?u = "dropWhile isspace t"
  let ?v = "dropWhile isspace (rev ?u)"
  from assms have v: "?v \<noteq> []" by (simp add: strip_def)
  have u: "?u \<noteq> []"
  proof
    assume "?u = []"
    then have "?v = []" by (simp only: rev.simps dropWhile.simps)
    with v show False by simp
  qed
  have l: "\<not> isspace (hd ?v)" using v by (rule hd_dropWhile)
  have hu: "\<not> isspace (hd ?u)" using u by (rule hd_dropWhile)
  obtain w where w: "rev ?u = w @ ?v"
    by (metis takeWhile_dropWhile_id)
  have "last ?v = last (rev ?u)" using v w by (metis last_appendR)
  also have "\<dots> = hd ?u" using u by (simp add: last_rev)
  finally have "last ?v = hd ?u" .
  with hu l v show ?thesis
    by (simp add: strip_def hd_rev last_rev)
qed

lemma concat_if_filter:
  "concat (map (\<lambda>s. if f s \<noteq> [] then [f s] else []) xs) = filter (\<lambda>u. u \<noteq> []) (map f xs)"
  by (induction xs) auto

lemma manual_skills_empty: "manual_skills [] = []"
  by (simp add: manual_skills_def strip_def)

text \<open>
  Claim C8. The skills entered by hand are the comma-separated tokens of the input (joined
  by commas they give the input back, and no token holds a comma), each without its
  leading and trailing whitespace, the empty ones dropped, in their order.
\<close>

theorem manual_skills_tokens:
  "\<exists>toks trimmed.
     toks \<noteq> [] \<and> join [0x2C] toks = inp \<and> (\<forall>t \<in> set toks. 0x2C \<notin> set t) \<and>
     list_all2 (\<lambda>t u. \<exists>a b. t = a @ u @ b \<and> list_all isspace a \<and> list_all isspace b \<and>
                        (u = [] \<or> (\<not> isspace (hd u) \<and> \<not> isspace (last u)))) toks trimmed \<and>
     manual_skills inp = filter (\<lambda>u. u \<noteq> []) trimmed"
proof -
  let ?toks = "split_on 0x2C inp"
  have 1: "?toks \<noteq> []" by (rule split_on_ne)
  have 2: "join [0x2C] ?toks = inp" by (rule split_on_join)
  have 3: "\<forall>t \<in> set ?toks. 0x2C \<notin> set t" using split_on_nosep by blast
  have 4: "list_all2 (\<lambda>t u. \<exists>a b. t = a @ u @ b \<and> list_all isspace a \<and> list_all isspace b \<and>
                        (u = [] \<or> (\<not> isspace (hd u) \<and> \<not> isspace (last u)))) ?toks (map strip ?toks)"
    unfolding list_all2_map2
    by (rule list_all2_refl) (use strip_decomp strip_ends in blast)
  have 5: "manual_skills inp = filter (\<lambda>u. u \<noteq> []) (map strip ?toks)"
    unfolding manual_skills_def by (rule concat_if_filter)
  from 1 2 3 4 5 show ?thesis by blast
qed

theorem manual_skills_tokens_witness:
  "manual_skills (str '' Python , ,SQL,, AWS '') = [str ''Python'', str ''SQL'', str ''AWS'']"
  using manual_skills_tokens [of "str '' Python , ,SQL,, AWS ''"]
  by (simp add: manual_skills_def strip_def isspace_def str_def)

section \<open>The gate of the plan\<close>

lemma sent_open_page: "sent (open_page s) = sent s"
  by (simp add: open_page_def sent_emit)

lemma sent_before_upload: "sent (before_upload s) = sent s"
  by (simp add: before_upload_def sent_emit)

lemma sent_load_api_key: "sent (snd (load_api_key w s)) = sent s"
  by (simp add: load_api_key_def sent_emit split: option.splits)

lemma load_api_key_some: "load_api_key w s = (Some k, s1) \<Longrightarrow> s1 = s"
  by (simp add: load_api_key_def split: option.splits if_splits)

lemma sent_parse_resume: "sent (snd (parse_resume file s)) = sent s"
  unfolding parse_resume_def
  by (simp add: sent_emit split: pdf_file.splits prod.splits option.splits sum.splits)

lemma sent_extract_skills:
  "sent (snd (extract_skills lib model resume_text s)) = sent s @ [SkillsPrompt resume_text]"
  unfolding extract_skills_def extract_skills_try_def generate_content_def
  by (simp add: sent_emit split: sum.splits)

lemma sent_resolve_skills:
  "sent (snd (resolve_skills lib model w s)) = sent s \<or>
   (\<exists>resume_text. sent (snd (resolve_skills lib model w s)) = sent s @ [SkillsPrompt resume_text])"
proof (cases "uploaded_file w")
  case None
  then show ?thesis by (simp add: resolve_skills_def)
next
  case (Some upl)
  obtain r s1 where p: "parse_resume upl s = (r, s1)" by (cases "parse_resume upl s")
  then have s1: "sent s1 = sent s" using sent_parse_resume[of upl s] by simp
  show ?thesis
  proof (cases r)
    case (Inl e)
    with Some p s1 show ?thesis by (simp add: resolve_skills_def)
  next
    case (Inr resume_text)
    show ?thesis
    proof (cases "resume_text = []")
      case True
      with Some p s1 Inr show ?thesis by (simp add: resolve_skills_def sent_emit)
    next
      case False
      let ?s = "emit (TextArea resume_text) (emit (Success (str ''Resume parsed successfully!'')) s1)"
      obtain x s2 where e: "extract_skills lib model resume_text ?s = (x, s2)"
        by (cases "extract_skills lib model resume_text ?s")
      then have s2: "sent s2 = sent s @ [SkillsPrompt resume_text]"
        using sent_extract_skills[of lib model resume_text ?s] s1 by (simp add: sent_emit)
      have "sent (snd (resolve_skills lib model w s)) = sent s2"
        using Some p Inr False e
        by (simp add: resolve_skills_def sent_emit split: sum.splits)
      with s2 show ?thesis by simp
    qed
  qed
qed

lemma plan_no_skills:
  "\<not> truthy skills \<Longrightarrow> sent (snd (plan lib model w name age domain skills psychometric s)) = sent s"
  by (simp add: plan_def sent_emit)

lemma main_no_skills:
  assumes "secret_api_key w = Some k" "k \<noteq> []"
    and "resolve_skills lib model w (before_upload (open_page s)) = (Inr skills, s2)"
    and "\<not> truthy skills"
  shows "sent (snd (main lib model w s)) = sent s2"
  using assms by (simp add: main_def load_api_key_def Let_def plan_no_skills sent_emit)

lemma main_no_key:
  assumes "secret_api_key w = None \<or> secret_api_key w = Some []"
  shows "sent (snd (main lib model w s)) = sent s"
  using assms by (auto simp: main_def load_api_key_def sent_emit sent_open_page)

lemma extract_skills_oops:
  "extract_skills demo_lib oops_model resume_text s =
     (Inr (PList []),
      emit (Warning (str ''Skill extraction failed: '' @ str ''Expecting value'' @
                   str ''. Ensure the resume has detectable skills. Raw response: '' @ str ''oops''))
        (s\<lparr>sent := sent s @ [SkillsPrompt resume_text]\<rparr>))"
  by (simp add: extract_skills_def extract_skills_try_def generate_content_def oops_model_def
        clean_oops loads_oops)

lemma parse_demo_upload: "parse_resume demo_upload s = (Inr (str ''Python developer''), s)"
  by (simp add: parse_resume_def demo_upload_def str_inj)

lemma resolve_demo:
  "\<exists>s2. resolve_skills demo_lib oops_model demo_widgets s = (Inr (PList []), s2) \<and>
        sent s2 = sent s @ [SkillsPrompt (str ''Python developer'')]"
  by (simp add: resolve_skills_def demo_widgets_def parse_demo_upload extract_skills_oops
        str_nonempty manual_skills_empty sent_emit)

text \<open>
  Claim C4 says that a run with the button pressed and an empty skills list invokes none
  of the four calls. Each run of \<open>main\<close> calls \<open>extract_skills\<close> before it
  reaches the gate: with a resume uploaded, a reply that is no JSON and nothing entered by
  hand, name and domain filled in and the button pressed, the skills are empty at the
  gate and the run has sent the prompt of skill extraction.
\<close>

theorem main_gate_counterexample:
  "generate_clicked demo_widgets \<and> name_input demo_widgets \<noteq> [] \<and>
   run_skills demo_lib oops_model demo_widgets world0 = Inr (PList []) \<and>
   sent (snd (main demo_lib oops_model demo_widgets world0)) = [SkillsPrompt (str ''Python developer'')]"
proof -
  from resolve_demo obtain s2 where
    r: "resolve_skills demo_lib oops_model demo_widgets (before_upload (open_page world0)) = (Inr (PList []), s2)"
    and s2: "sent s2 = sent (before_upload (open_page world0)) @ [SkillsPrompt (str ''Python developer'')]"
    by blast
  have k: "secret_api_key demo_widgets = Some (str ''key'')" "str ''key'' \<noteq> []"
    by (simp_all add: demo_widgets_def str_nonempty)
  have nt: "\<not> truthy (PList [])" by simp
  have "sent (snd (main demo_lib oops_model demo_widgets world0)) = sent s2"
    using k r nt by (rule main_no_skills)
  moreover have "sent (before_upload (open_page world0)) = []"
    by (simp add: sent_before_upload sent_open_page world0_def)
  moreover have "run_skills demo_lib oops_model demo_widgets world0 = Inr (PList [])"
    by (simp add: run_skills_def r)
  moreover have "generate_clicked demo_widgets \<and> name_input demo_widgets \<noteq> []"
    by (simp add: demo_widgets_def str_nonempty)
  ultimately show ?thesis using s2 by simp
qed

text \<open>
  Claim C4, amended. In every run of \<open>main\<close> whose skills are empty at the gate,
  whatever name, domain and the button are, no prompt of roadmap generation, skill-gap
  analysis or course recommendation is sent: the run sends nothing, or the one prompt of
  skill extraction.
\<close>

theorem main_gate:
  "run_skills lib model w s = Inr skills \<Longrightarrow> \<not> truthy skills \<Longrightarrow>
   sent (snd (main lib model w s)) = sent s \<or>
   (\<exists>resume_text. sent (snd (main lib model w s)) = sent s @ [SkillsPrompt resume_text])"
proof -
  assume rs: "run_skills lib model w s = Inr skills" and nt: "\<not> truthy skills"
  show ?thesis
  proof (cases "secret_api_key w = None \<or> secret_api_key w = Some []")
    case True
    then show ?thesis using main_no_key by blast
  next
    case False
    then obtain k where k: "secret_api_key w = Some k" "k \<noteq> []" by auto
    let ?r = "resolve_skills lib model w (before_upload (open_page s))"
    obtain s2 where r: "?r = (Inr skills, s2)"
      using rs by (cases ?r) (simp add: run_skills_def)
    have m: "sent (snd (main lib model w s)) = sent s2"
      using k r nt by (rule main_no_skills)
    from sent_resolve_skills[of lib model w "before_upload (open_page s)"] r
    have "sent s2 = sent s \<or> (\<exists>resume_text. sent s2 = sent s @ [SkillsPrompt resume_text])"
      by (simp add: sent_before_upload sent_open_page)
    with m show ?thesis by simp
  qed
qed

text \<open>
  Without an uploaded file the skills are empty and the run sends nothing.
\<close>

theorem main_gate_witness:
  "run_skills demo_lib oops_model (demo_widgets\<lparr>uploaded_file := None\<rparr>) world0 = Inr (PList []) \<and>
   (sent (snd (main demo_lib oops_model (demo_widgets\<lparr>uploaded_file := None\<rparr>) world0)) = sent world0 \<or>
    (\<exists>resume_text. sent (snd (main demo_lib oops_model (demo_widgets\<lparr>uploaded_file := None\<rparr>) world0)) =
        sent world0 @ [SkillsPrompt resume_text]))"
proof -
  have r: "run_skills demo_lib oops_model (demo_widgets\<lparr>uploaded_file := None\<rparr>) world0 = Inr (PList [])"
    by (simp add: run_skills_def resolve_skills_def)
  have nt: "\<not> truthy (PList [])" by simp
  from main_gate [OF r nt] r show ?thesis by simp
qed

end
